theory Spec2Isabelle
  imports Complex_Main "HOL-Library.Word"
begin

section \<open>The FemtoDream derived data model (PWGCF/DataModel/FemtoDerived.h)\<close>

text \<open>
  The header declares columns, tables, enumerations with parallel name tables and six
  dynamic columns (small lambdas over stored columns). The embedding keeps the names of
  the header. A table is the list of its rows; the row index of \<open>o2::soa::Index<>\<close> is
  the position in that list.
\<close>

subsection \<open>Single-precision values\<close>

text \<open>
  A C++ \<open>float\<close> is an IEEE-754 binary32 value: a finite number, an infinity or a NaN.
  The two zeros are identified (they compare equal in C++, and no operation of the header
  divides by a zero that can be negative).
\<close>

datatype float = Finite real | PInf | NInf | NaN

text \<open>Round to nearest integer, ties to even.\<close>

definition rne :: "real \<Rightarrow> int" where
  "rne z = (let f = \<lfloor>z\<rfloor>; d = z - of_int f in
            if d < 1 / 2 then f
            else if 1 / 2 < d then f + 1
            else if even f then f else f + 1)"

text \<open>
  The exponent of the binade of \<open>x\<close>, not below that of the subnormal numbers, and the
  spacing of the binary32 numbers there (24 significant bits).
\<close>

definition expo :: "real \<Rightarrow> int" where
  "expo x = (if x = 0 then - 126 else max (- 126) \<lfloor>log 2 \<bar>x\<bar>\<rfloor>)"

definition ulp :: "real \<Rightarrow> real" where
  "ulp x = 2 powr of_int (expo x - 23)"

definition quantize :: "real \<Rightarrow> real" where
  "quantize x = of_int (rne (x / ulp x)) * ulp x"

text \<open>
  Rounding of an exact result to binary32, round-to-nearest-even, overflowing to an
  infinity when the rounded magnitude reaches \<open>2 ^ 128\<close>.
\<close>

definition round32 :: "real \<Rightarrow> float" where
  "round32 x =
     (if x = 0 then Finite 0
      else if 2 ^ 128 \<le> \<bar>quantize x\<bar> then (if 0 < x then PInf else NInf)
      else Finite (quantize x))"

text \<open>
  Unary minus, multiplication and division of binary32 values. Every operation on
  \<open>float\<close> operands is evaluated in single precision: its exact result is rounded to
  binary32.
\<close>

fun fneg :: "float \<Rightarrow> float" where
  "fneg (Finite x) = Finite (- x)"
| "fneg PInf = NInf"
| "fneg NInf = PInf"
| "fneg NaN = NaN"

fun fsign_neg :: "float \<Rightarrow> bool" where
  "fsign_neg (Finite x) = (x < 0)"
| "fsign_neg PInf = False"
| "fsign_neg NInf = True"
| "fsign_neg NaN = False"

definition inf_of_sign :: "bool \<Rightarrow> float" where
  "inf_of_sign neg = (if neg then NInf else PInf)"

fun fmul :: "float \<Rightarrow> float \<Rightarrow> float" where
  "fmul NaN _ = NaN"
| "fmul _ NaN = NaN"
| "fmul (Finite a) (Finite b) = round32 (a * b)"
| "fmul (Finite a) y = (if a = 0 then NaN else inf_of_sign ((a < 0) \<noteq> fsign_neg y))"
| "fmul x (Finite b) = (if b = 0 then NaN else inf_of_sign (fsign_neg x \<noteq> (b < 0)))"
| "fmul x y = inf_of_sign (fsign_neg x \<noteq> fsign_neg y)"

fun fdiv :: "float \<Rightarrow> float \<Rightarrow> float" where
  "fdiv NaN _ = NaN"
| "fdiv _ NaN = NaN"
| "fdiv (Finite a) (Finite b) =
     (if b = 0 then (if a = 0 then NaN else inf_of_sign (a < 0))
      else round32 (a / b))"
| "fdiv (Finite a) y = Finite 0"
| "fdiv x (Finite b) = inf_of_sign (fsign_neg x \<noteq> (b < 0))"
| "fdiv x y = NaN"

text \<open>The comparison \<open><=\<close> of binary32 values: false as soon as one side is a NaN.\<close>

fun fle :: "float \<Rightarrow> float \<Rightarrow> bool" where
  "fle NaN _ = False"
| "fle _ NaN = False"
| "fle (Finite a) (Finite b) = (a \<le> b)"
| "fle NInf _ = True"
| "fle _ PInf = True"
| "fle _ _ = False"

text \<open>The conversion \<open>(float)\<close> of a \<open>uint8_t\<close>: every value 0..255 is a binary32 number.\<close>

definition float_of_uint8 :: "8 word \<Rightarrow> float" where
  "float_of_uint8 w = Finite (real (unat w))"

text \<open>
  The functions of the C++ header \<open>cmath\<close> on \<open>float\<close>, which the header calls and
  does not define. Their results differ in the last bit from one mathematical library to
  another, so the library is a parameter of the dynamic columns.
\<close>

record cmath =
  std_exp :: "float \<Rightarrow> float"
  std_atan :: "float \<Rightarrow> float"
  std_sin :: "float \<Rightarrow> float"
  std_cos :: "float \<Rightarrow> float"
  std_sinh :: "float \<Rightarrow> float"
  std_cosh :: "float \<Rightarrow> float"

text \<open>
  Properties a library may have. The values at zero are those the C standard fixes
  (Annex F): \<open>sin 0 = 0\<close>, \<open>cos 0 = 1\<close>, \<open>sinh 0 = 0\<close>, \<open>cosh 0 = 1\<close>, \<open>exp 0 = 1\<close>.
\<close>

definition exact_at_zero :: "cmath \<Rightarrow> bool" where
  "exact_at_zero L =
     (std_sin L (Finite 0) = Finite 0 \<and> std_cos L (Finite 0) = Finite 1 \<and>
      std_sinh L (Finite 0) = Finite 0 \<and> std_cosh L (Finite 0) = Finite 1 \<and>
      std_exp L (Finite 0) = Finite 1)"

text \<open>
  The arguments of a library function are binary32 numbers: finite numbers that rounding
  does not change.
\<close>

definition is_binary32 :: "real \<Rightarrow> bool" where
  "is_binary32 x = (quantize x = x \<and> \<bar>x\<bar> < 2 ^ 128)"

text \<open>
  The exponential of a binary32 number is a non-negative binary32 number or \<open>+inf\<close>; the
  arc tangent of a non-negative binary32 number or of \<open>+inf\<close> is a number between 0 and
  \<open>13176795 / 2^23\<close>, the binary32 number nearest to \<open>\<pi>/2\<close>.
\<close>

definition exp_range :: "cmath \<Rightarrow> bool" where
  "exp_range L =
     (\<forall>x. is_binary32 x \<longrightarrow>
        std_exp L (Finite x) = PInf \<or>
        (\<exists>q. std_exp L (Finite x) = Finite q \<and> 0 \<le> q \<and> is_binary32 q))"

definition atan_range :: "cmath \<Rightarrow> bool" where
  "atan_range L =
     (\<forall>y. y = PInf \<or> (\<exists>q. y = Finite q \<and> 0 \<le> q \<and> is_binary32 q) \<longrightarrow>
        (\<exists>a. std_atan L y = Finite a \<and> 0 \<le> a \<and> a \<le> 13176795 / 8388608))"

text \<open>
  A library function \<open>g\<close> computes the real function \<open>F\<close> within two units in the last
  place: at a binary32 argument where the exact value does not exceed \<open>2^127\<close> in
  magnitude the result is a number whose error is at most \<open>|F x| / 2^22 + 1 / 2^148\<close>
  (twice the spacing of the binary32 numbers at \<open>F x\<close>).
\<close>

definition within_2ulp :: "(float \<Rightarrow> float) \<Rightarrow> (real \<Rightarrow> real) \<Rightarrow> bool" where
  "within_2ulp g F =
     (\<forall>x. is_binary32 x \<and> \<bar>F x\<bar> \<le> 2 ^ 127 \<longrightarrow>
        (\<exists>s. g (Finite x) = Finite s \<and> \<bar>s - F x\<bar> \<le> \<bar>F x\<bar> / 2 ^ 22 + 1 / 2 ^ 148))"

definition two_ulp_accurate :: "cmath \<Rightarrow> bool" where
  "two_ulp_accurate L =
     (within_2ulp (std_sin L) sin \<and> within_2ulp (std_cos L) cos \<and>
      within_2ulp (std_sinh L) sinh \<and> within_2ulp (std_cosh L) cosh)"

text \<open>
  One library, the correctly rounded one: each function returns the binary32 number
  nearest to the exact value, with the standard results at the infinities and at NaN.
  A library need not be correctly rounded, and may differ from this one in the last
  bits; this one has each of the properties above.
\<close>

fun nearest_exp :: "float \<Rightarrow> float" where
  "nearest_exp (Finite x) = round32 (exp x)"
| "nearest_exp PInf = PInf"
| "nearest_exp NInf = Finite 0"
| "nearest_exp NaN = NaN"

fun nearest_atan :: "float \<Rightarrow> float" where
  "nearest_atan (Finite x) = round32 (arctan x)"
| "nearest_atan PInf = round32 (pi / 2)"
| "nearest_atan NInf = round32 (- (pi / 2))"
| "nearest_atan NaN = NaN"

fun nearest_sin :: "float \<Rightarrow> float" where
  "nearest_sin (Finite x) = round32 (sin x)"
| "nearest_sin _ = NaN"

fun nearest_cos :: "float \<Rightarrow> float" where
  "nearest_cos (Finite x) = round32 (cos x)"
| "nearest_cos _ = NaN"

fun nearest_sinh :: "float \<Rightarrow> float" where
  "nearest_sinh (Finite x) = round32 (sinh x)"
| "nearest_sinh PInf = PInf"
| "nearest_sinh NInf = NInf"
| "nearest_sinh NaN = NaN"

fun nearest_cosh :: "float \<Rightarrow> float" where
  "nearest_cosh (Finite x) = round32 (cosh x)"
| "nearest_cosh PInf = PInf"
| "nearest_cosh NInf = PInf"
| "nearest_cosh NaN = NaN"

definition nearest_cmath :: cmath where
  "nearest_cmath =
     \<lparr>std_exp = nearest_exp, std_atan = nearest_atan, std_sin = nearest_sin,
      std_cos = nearest_cos, std_sinh = nearest_sinh, std_cosh = nearest_cosh\<rparr>"

subsection \<open>Arrays\<close>

text \<open>
  An array \<open>T a[n] = {...}\<close> with fewer initialisers than \<open>n\<close>: the remaining elements
  are value-initialised. Reading \<open>a[i]\<close> is defined only for \<open>i < n\<close>.
\<close>

definition array_init :: "nat \<Rightarrow> 'a \<Rightarrow> 'a list \<Rightarrow> 'a list" where
  "array_init n dflt xs = take n xs @ replicate (n - length xs) dflt"

definition subscript :: "'a list \<Rightarrow> nat \<Rightarrow> 'a option" where
  "subscript a i = (if i < length a then Some (a ! i) else None)"

subsection \<open>Enumerations and their name tables\<close>

datatype ParticleType =
  kTrack | kV0 | kV0Child | kCascade | kCascadeBachelor | kCharmHadron | kNParticleTypes

fun ParticleType_value :: "ParticleType \<Rightarrow> nat" where
  "ParticleType_value kTrack = 0"
| "ParticleType_value kV0 = 1"
| "ParticleType_value kV0Child = 2"
| "ParticleType_value kCascade = 3"
| "ParticleType_value kCascadeBachelor = 4"
| "ParticleType_value kCharmHadron = 5"
| "ParticleType_value kNParticleTypes = 6"

definition ParticleTypeName :: "string list" where
  "ParticleTypeName = array_init (ParticleType_value kNParticleTypes) ''''
     [''Tracks'', ''V0'', ''V0Child'', ''Cascade'', ''CascadeBachelor'', ''CharmHadron'']"

definition TempFitVarName :: "string list" where
  "TempFitVarName = array_init (ParticleType_value kNParticleTypes - 1) ''''
     [''/hDCAxy'', ''/hCPA'', ''/hDCAxy'', ''/hCPA'', ''/hDCAxy'']"

datatype ParticleOriginMCTruth =
  kPrimary | kSecondary | kMaterial | kNotPrimary | kFake | kWrongCollision
  | kSecondaryDaughterLambda | kSecondaryDaughterSigmaplus | kElse | kNOriginMCTruthTypes

fun ParticleOriginMCTruth_value :: "ParticleOriginMCTruth \<Rightarrow> nat" where
  "ParticleOriginMCTruth_value kPrimary = 0"
| "ParticleOriginMCTruth_value kSecondary = 1"
| "ParticleOriginMCTruth_value kMaterial = 2"
| "ParticleOriginMCTruth_value kNotPrimary = 3"
| "ParticleOriginMCTruth_value kFake = 4"
| "ParticleOriginMCTruth_value kWrongCollision = 5"
| "ParticleOriginMCTruth_value kSecondaryDaughterLambda = 6"
| "ParticleOriginMCTruth_value kSecondaryDaughterSigmaplus = 7"
| "ParticleOriginMCTruth_value kElse = 8"
| "ParticleOriginMCTruth_value kNOriginMCTruthTypes = 9"

text \<open>The initialiser list of the name table, as written in the header.\<close>

definition ParticleOriginMCTruthName_initialisers :: "string list" where
  "ParticleOriginMCTruthName_initialisers =
     [''_Primary'', ''_Secondary'', ''_Material'', ''_NotPrimary'', ''_Fake'',
      ''_SecondaryDaughterLambda'', ''_SecondaryDaughterSigmaPlus'']"

definition ParticleOriginMCTruthName :: "string list" where
  "ParticleOriginMCTruthName =
     array_init (ParticleOriginMCTruth_value kNOriginMCTruthTypes) ''''
       ParticleOriginMCTruthName_initialisers"

subsection \<open>Tables\<close>

text \<open>The origin and description of each \<open>DECLARE_SOA_TABLE\<close>, in the order of the header.\<close>

record soa_table =
  table_name :: string
  origin :: string
  description :: string

definition FDCollisions :: soa_table where
  "FDCollisions = \<lparr>table_name = ''FDCollisions'', origin = ''AOD'', description = ''FDCOLLISION''\<rparr>"

definition FDColMasks :: soa_table where
  "FDColMasks = \<lparr>table_name = ''FDColMasks'', origin = ''AOD'', description = ''FDCOLMASK''\<rparr>"

definition FDDownSample :: soa_table where
  "FDDownSample = \<lparr>table_name = ''FDDownSample'', origin = ''AOD'', description = ''FDDOWNSAMPLE''\<rparr>"

definition FDHfCand :: soa_table where
  "FDHfCand = \<lparr>table_name = ''FDHfCand'', origin = ''AOD'', description = ''FDHFCAND''\<rparr>"

definition FDResultsHF :: soa_table where
  "FDResultsHF = \<lparr>table_name = ''FDResultsHF'', origin = ''AOD'', description = ''FDRESULTSHF''\<rparr>"

definition FDHfCandMC :: soa_table where
  "FDHfCandMC = \<lparr>table_name = ''FDHfCandMC'', origin = ''AOD'', description = ''FDHFCANDMC''\<rparr>"

definition FDHfCandMCGen :: soa_table where
  "FDHfCandMCGen = \<lparr>table_name = ''FDHfCandMCGen'', origin = ''AOD'', description = ''FDHFCANDMCGEN''\<rparr>"

definition FDParticlesIndex :: soa_table where
  "FDParticlesIndex = \<lparr>table_name = ''FDParticlesIndex'', origin = ''AOD'', description = ''FDPARTICLEINDEX''\<rparr>"

definition FDParticles :: soa_table where
  "FDParticles = \<lparr>table_name = ''FDParticles'', origin = ''AOD'', description = ''FDPARTICLE''\<rparr>"

definition FDExtParticles :: soa_table where
  "FDExtParticles = \<lparr>table_name = ''FDExtParticles'', origin = ''AOD'', description = ''FDEXTPARTICLE''\<rparr>"

definition FDMCParticles :: soa_table where
  "FDMCParticles = \<lparr>table_name = ''FDMCParticles'', origin = ''AOD'', description = ''FDMCPARTICLE''\<rparr>"

definition FDExtMCParticles :: soa_table where
  "FDExtMCParticles = \<lparr>table_name = ''FDExtMCParticles'', origin = ''AOD'', description = ''FDEXTMCPARTICLE''\<rparr>"

definition FDMCLabels :: soa_table where
  "FDMCLabels = \<lparr>table_name = ''FDMCLabels'', origin = ''AOD'', description = ''FDMCLabel''\<rparr>"

definition FDExtMCLabels :: soa_table where
  "FDExtMCLabels = \<lparr>table_name = ''FDExtMCLabels'', origin = ''AOD'', description = ''FDExtMCLabel''\<rparr>"

definition Hashes :: soa_table where
  "Hashes = \<lparr>table_name = ''Hashes'', origin = ''AOD'', description = ''HASH''\<rparr>"

definition declared_tables :: "soa_table list" where
  "declared_tables =
     [FDCollisions, FDColMasks, FDDownSample, FDHfCand, FDResultsHF, FDHfCandMC,
      FDHfCandMCGen, FDParticlesIndex, FDParticles, FDExtParticles, FDMCParticles,
      FDExtMCParticles, FDMCLabels, FDExtMCLabels, Hashes]"

subsection \<open>Rows\<close>

text \<open>
  The stored columns of a row of \<open>FDParticles\<close>, with the types of their
  \<open>DECLARE_SOA_COLUMN\<close>. Index columns hold 32-bit signed row numbers.
\<close>

record FDParticle =
  fdCollisionId :: "32 word"
  pt :: float
  eta :: float
  phi :: float
  partType :: "8 word"
  cut :: "32 word"
  pidcut :: "32 word"
  tempFitVar :: float
  childrenIds :: "32 word list"
  mLambda :: float
  mAntiLambda :: float

text \<open>The stored columns of a row of \<open>FDMCParticles\<close>.\<close>

record FDMCParticle =
  partOriginMCTruth :: "8 word"
  pdgMCTruth :: "32 word"
  mc_pt :: float
  mc_eta :: float
  mc_phi :: float

text \<open>
  The two stored columns of a row of \<open>FDExtParticles\<close> that its dynamic column reads,
  with the types of the lambda's parameters (the other columns of that table, some of
  them declared outside this header, are plain stored values).
\<close>

record FDFullParticle =
  tpcNClsFindable :: "8 word"
  tpcNClsCrossedRows :: "8 word"

text \<open>A stored tag is one of the declared kinds when it is below the enumeration's count.\<close>

definition is_ParticleType :: "8 word \<Rightarrow> bool" where
  "is_ParticleType w = (unat w < ParticleType_value kNParticleTypes)"

definition is_ParticleOriginMCTruth :: "8 word \<Rightarrow> bool" where
  "is_ParticleOriginMCTruth w = (unat w < ParticleOriginMCTruth_value kNOriginMCTruthTypes)"

text \<open>Row \<open>i\<close> of a particle table names itself among its children.\<close>

definition self_child :: "FDParticle list \<Rightarrow> nat \<Rightarrow> bool" where
  "self_child tbl i = (i < length tbl \<and> int i \<in> sint ` set (childrenIds (tbl ! i)))"

subsection \<open>Dynamic columns\<close>

text \<open>The lambdas of the dynamic columns, over the library \<open>L\<close> they are linked with.\<close>

definition Theta :: "cmath \<Rightarrow> float \<Rightarrow> float" where
  "Theta L eta' = fmul (Finite 2) (std_atan L (std_exp L (fneg eta')))"

definition Px :: "cmath \<Rightarrow> float \<Rightarrow> float \<Rightarrow> float" where
  "Px L pt' phi' = fmul pt' (std_sin L phi')"

definition Py :: "cmath \<Rightarrow> float \<Rightarrow> float \<Rightarrow> float" where
  "Py L pt' phi' = fmul pt' (std_cos L phi')"

definition Pz :: "cmath \<Rightarrow> float \<Rightarrow> float \<Rightarrow> float" where
  "Pz L pt' eta' = fmul pt' (std_sinh L eta')"

definition P :: "cmath \<Rightarrow> float \<Rightarrow> float \<Rightarrow> float" where
  "P L pt' eta' = fmul pt' (std_cosh L eta')"

definition TPCCrossedRowsOverFindableCls :: "8 word \<Rightarrow> 8 word \<Rightarrow> float" where
  "TPCCrossedRowsOverFindableCls tpcNClsFindable' tpcNClsCrossedRows' =
     fdiv (float_of_uint8 tpcNClsCrossedRows') (float_of_uint8 tpcNClsFindable')"

text \<open>
  The getters of a row: each dynamic column is bound to the stored columns named in the
  table declaration.
\<close>

definition theta :: "cmath \<Rightarrow> FDParticle \<Rightarrow> float" where
  "theta L r = Theta L (eta r)"

definition px :: "cmath \<Rightarrow> FDParticle \<Rightarrow> float" where
  "px L r = Px L (pt r) (phi r)"

definition py :: "cmath \<Rightarrow> FDParticle \<Rightarrow> float" where
  "py L r = Py L (pt r) (phi r)"

definition pz :: "cmath \<Rightarrow> FDParticle \<Rightarrow> float" where
  "pz L r = Pz L (pt r) (eta r)"

definition p :: "cmath \<Rightarrow> FDParticle \<Rightarrow> float" where
  "p L r = P L (pt r) (eta r)"

definition tpcCrossedRowsOverFindableCls :: "FDFullParticle \<Rightarrow> float" where
  "tpcCrossedRowsOverFindableCls r =
     TPCCrossedRowsOverFindableCls (tpcNClsFindable r) (tpcNClsCrossedRows r)"

section \<open>Rounding to binary32\<close>

subsection \<open>Rounding to the nearest integer\<close>

lemma rne_of_int: "rne (of_int k) = k"
  by (simp add: rne_def)

lemma rne_floor_le: "\<lfloor>z\<rfloor> \<le> rne z"
  by (simp add: rne_def Let_def)

lemma rne_le_floor1: "rne z \<le> \<lfloor>z\<rfloor> + 1"
  by (simp add: rne_def Let_def)

lemma rne_lower: "of_int k \<le> z \<Longrightarrow> k \<le> rne z"
proof -
  assume "of_int k \<le> z"
  then have "k \<le> \<lfloor>z\<rfloor>" by (simp add: le_floor_iff)
  with rne_floor_le [of z] show ?thesis by linarith
qed

lemma rne_upper: "z \<le> of_int k \<Longrightarrow> rne z \<le> k"
proof (cases "z = of_int k")
  case True then show ?thesis by (simp add: rne_of_int)
next
  case False
  assume "z \<le> of_int k"
  with False have "z < of_int k" by simp
  then have "\<lfloor>z\<rfloor> < k" by (simp add: floor_less_iff)
  with rne_le_floor1 [of z] show ?thesis by linarith
qed

lemma rne_mono: "z \<le> w \<Longrightarrow> rne z \<le> rne w"
proof -
  assume zw: "z \<le> w"
  then have fl: "\<lfloor>z\<rfloor> \<le> \<lfloor>w\<rfloor>" by (rule floor_mono)
  show ?thesis
  proof (cases "\<lfloor>z\<rfloor> = \<lfloor>w\<rfloor>")
    case True
    with zw show ?thesis by (auto simp: rne_def Let_def)
  next
    case False
    with fl have "\<lfloor>z\<rfloor> + 1 \<le> \<lfloor>w\<rfloor>" by simp
    with rne_le_floor1 [of z] rne_floor_le [of w] show ?thesis by linarith
  qed
qed

lemma rne_err: "\<bar>of_int (rne z) - z\<bar> \<le> 1 / 2"
proof -
  have "of_int \<lfloor>z\<rfloor> \<le> z" "z < of_int \<lfloor>z\<rfloor> + 1" by linarith+
  then show ?thesis by (auto simp: rne_def Let_def)
qed

lemma rne_half: "0 \<le> z \<Longrightarrow> z \<le> 1 / 2 \<Longrightarrow> rne z = 0"
proof -
  assume a: "0 \<le> z" "z \<le> 1 / 2"
  then have "\<lfloor>z\<rfloor> = 0" by linarith
  with a show ?thesis by (auto simp: rne_def Let_def)
qed

subsection \<open>Exponent, spacing and the grid of a binade\<close>

lemma ulp_pos: "0 < ulp x"
  by (simp add: ulp_def)

lemma quantize_0: "quantize 0 = 0"
  by (simp add: quantize_def rne_def)

lemma quantize_le_grid: "x \<le> of_int k * ulp x \<Longrightarrow> quantize x \<le> of_int k * ulp x"
proof -
  assume "x \<le> of_int k * ulp x"
  then have "x / ulp x \<le> of_int k" using ulp_pos [of x] by (simp add: pos_divide_le_eq)
  then have "rne (x / ulp x) \<le> k" by (rule rne_upper)
  then have "(of_int (rne (x / ulp x)) :: real) \<le> of_int k" by simp
  then show ?thesis unfolding quantize_def using ulp_pos [of x] by (simp add: mult_right_mono)
qed

lemma quantize_ge_grid: "of_int k * ulp x \<le> x \<Longrightarrow> of_int k * ulp x \<le> quantize x"
proof -
  assume "of_int k * ulp x \<le> x"
  then have "of_int k \<le> x / ulp x" using ulp_pos [of x] by (simp add: pos_le_divide_eq)
  then have "k \<le> rne (x / ulp x)" by (rule rne_lower)
  then have "(of_int k :: real) \<le> of_int (rne (x / ulp x))" by simp
  then show ?thesis unfolding quantize_def using ulp_pos [of x] by (simp add: mult_right_mono)
qed

lemma quantize_nonneg: "0 \<le> x \<Longrightarrow> 0 \<le> quantize x"
  using quantize_ge_grid [of 0 x] by simp

lemma quantize_err: "\<bar>quantize x - x\<bar> \<le> ulp x / 2"
proof -
  have "quantize x - x = (of_int (rne (x / ulp x)) - x / ulp x) * ulp x"
    using ulp_pos [of x] by (simp add: quantize_def algebra_simps)
  then have "\<bar>quantize x - x\<bar> = \<bar>of_int (rne (x / ulp x)) - x / ulp x\<bar> * ulp x"
    using ulp_pos [of x] by (simp add: abs_mult)
  also have "\<dots> \<le> (1 / 2) * ulp x"
    using rne_err [of "x / ulp x"] ulp_pos [of x] by (intro mult_right_mono) simp_all
  finally show ?thesis by simp
qed

lemma expo_ge: "- 126 \<le> expo x"
  by (simp add: expo_def)

lemma expo_normal:
  assumes "- 126 \<le> e" "2 powr of_int e \<le> \<bar>x\<bar>" "\<bar>x\<bar> < 2 powr of_int (e + 1)"
  shows "expo x = e"
proof -
  have "0 < \<bar>x\<bar>" using assms(2) by (smt (verit) powr_gt_zero)
  then have "\<lfloor>log 2 \<bar>x\<bar>\<rfloor> = e"
    using assms by (simp add: floor_log_eq_powr_iff)
  with assms(1) \<open>0 < \<bar>x\<bar>\<close> show ?thesis by (simp add: expo_def)
qed

lemma expo_subnormal:
  assumes "x \<noteq> 0" "\<bar>x\<bar> < 2 powr (- 126)"
  shows "expo x = - 126"
proof -
  have "log 2 \<bar>x\<bar> < - 126"
    using assms by (simp add: log_less_iff)
  then have "\<lfloor>log 2 \<bar>x\<bar>\<rfloor> < - 126" by (simp add: floor_less_iff)
  then show ?thesis by (simp add: expo_def)
qed

lemma below_top: assumes "x \<noteq> 0" shows "\<bar>x\<bar> < 2 powr of_int (expo x + 1)"
proof -
  have pos: "0 < \<bar>x\<bar>" using assms by simp
  have "log 2 \<bar>x\<bar> < of_int (\<lfloor>log 2 \<bar>x\<bar>\<rfloor> + 1)" by linarith
  also have "\<dots> \<le> of_int (expo x + 1)" using assms by (simp add: expo_def)
  finally have "log 2 \<bar>x\<bar> < of_int (expo x + 1)" .
  then show ?thesis using pos by (simp add: log_less_iff)
qed

lemma above_bottom: assumes "- 126 < expo x" shows "2 powr of_int (expo x) \<le> \<bar>x\<bar>"
proof -
  have x0: "x \<noteq> 0" using assms by (auto simp: expo_def)
  have e: "expo x = \<lfloor>log 2 \<bar>x\<bar>\<rfloor>" using assms by (simp add: expo_def max_def split: if_splits)
  have pos: "0 < \<bar>x\<bar>" using x0 by simp
  have "of_int (expo x) \<le> log 2 \<bar>x\<bar>" unfolding e by linarith
  then show ?thesis using pos by (simp add: le_log_iff)
qed

lemma expo_mono: assumes "0 < x" "x \<le> y" shows "expo x \<le> expo y"
proof -
  have "log 2 \<bar>x\<bar> \<le> log 2 \<bar>y\<bar>" using assms by simp
  then have "\<lfloor>log 2 \<bar>x\<bar>\<rfloor> \<le> \<lfloor>log 2 \<bar>y\<bar>\<rfloor>" by (rule floor_mono)
  then show ?thesis using assms by (simp add: expo_def)
qed

lemma top_grid: "2 powr of_int (expo x + 1) = of_int (2 ^ 24) * ulp x"
proof -
  have "(2::real) powr of_int (expo x + 1) = 2 powr (24 + of_int (expo x - 23))"
    by (simp add: add.commute)
  also have "\<dots> = 2 powr 24 * 2 powr of_int (expo x - 23)" by (rule powr_add)
  finally show ?thesis by (simp add: ulp_def)
qed

lemma bottom_grid: "2 powr of_int (expo x) = of_int (2 ^ 23) * ulp x"
proof -
  have "(2::real) powr of_int (expo x) = 2 powr (23 + of_int (expo x - 23))" by simp
  also have "\<dots> = 2 powr 23 * 2 powr of_int (expo x - 23)" by (rule powr_add)
  finally show ?thesis by (simp add: ulp_def)
qed

lemma quantize_mono: assumes "0 < x" "x \<le> y" shows "quantize x \<le> quantize y"
proof (cases "expo x = expo y")
  case True
  then have u: "ulp x = ulp y" by (simp add: ulp_def)
  have "x / ulp y \<le> y / ulp y" using assms ulp_pos [of y] by (simp add: divide_right_mono)
  then have "rne (x / ulp y) \<le> rne (y / ulp y)" by (rule rne_mono)
  then have "(of_int (rne (x / ulp y)) :: real) \<le> of_int (rne (y / ulp y))" by simp
  then show ?thesis unfolding quantize_def u using ulp_pos [of y] by (simp add: mult_right_mono)
next
  case False
  with expo_mono [OF assms] have lt: "expo x < expo y" by simp
  have x0: "x \<noteq> 0" using assms by simp
  have "x \<le> 2 powr of_int (expo x + 1)" using below_top [OF x0] assms by simp
  then have "quantize x \<le> 2 powr of_int (expo x + 1)"
    unfolding top_grid by (rule quantize_le_grid)
  also have "\<dots> \<le> 2 powr of_int (expo y)" using lt by (simp)
  also have "\<dots> \<le> quantize y"
  proof -
    have "- 126 < expo y" using lt expo_ge [of x] by linarith
    from above_bottom [OF this] have "2 powr of_int (expo y) \<le> y" using assms by simp
    then show ?thesis unfolding bottom_grid by (rule quantize_ge_grid)
  qed
  finally show ?thesis .
qed

subsection \<open>Numbers on the grid are not changed\<close>

lemma quantize_int_grid: assumes "x / ulp x = of_int k" shows "quantize x = x"
proof -
  have "quantize x = of_int k * ulp x" by (simp add: quantize_def assms rne_of_int)
  also have "\<dots> = x" using assms ulp_pos [of x] by (simp add: field_simps)
  finally show ?thesis .
qed

lemma expo_le: assumes "x \<noteq> 0" "- 126 \<le> e" "\<bar>x\<bar> < 2 powr of_int (e + 1)" shows "expo x \<le> e"
proof -
  have "log 2 \<bar>x\<bar> < of_int (e + 1)" using assms by (simp add: log_less_iff)
  then have "\<lfloor>log 2 \<bar>x\<bar>\<rfloor> < e + 1" by (simp only: floor_less_iff)
  then show ?thesis using assms by (simp add: expo_def)
qed

lemma pow2_succ: "(2::real) powr of_int (e + 1) = 2 * 2 powr of_int e"
proof -
  have "(2::real) powr of_int (e + 1) = 2 powr (1 + of_int e)" by (simp add: add.commute)
  also have "\<dots> = 2 powr 1 * 2 powr of_int e" by (rule powr_add)
  finally show ?thesis by simp
qed

lemma ulp_succ: assumes "expo y = expo x + 1" shows "ulp y = 2 * ulp x"
proof -
  have "ulp y = 2 powr of_int ((expo x - 23) + 1)" by (simp add: ulp_def assms)
  then show ?thesis by (simp only: pow2_succ ulp_def)
qed

lemma expo_1: "expo 1 = 0"
  by (rule expo_normal) simp_all

lemma quantize_1: "quantize 1 = 1"
proof (rule quantize_int_grid)
  have "ulp 1 = 2 powr (- 23)" by (simp add: ulp_def expo_1)
  then show "1 / ulp 1 = of_int (2 ^ 23)" by (simp add: powr_minus field_simps)
qed

lemma round32_0: "round32 0 = Finite 0"
  by (simp add: round32_def)

lemma round32_1: "round32 1 = Finite 1"
  by (simp add: round32_def quantize_1)

lemma round32_tiny: assumes "0 < x" "x \<le> 2 powr (- 150)" shows "round32 x = Finite 0"
proof -
  have "2 powr (- 150) < (2::real) powr (- 126)" by (simp)
  with assms(2) have "x < 2 powr (- 126)" by (rule le_less_trans)
  with assms(1) have "\<bar>x\<bar> < 2 powr (- 126)" by (simp only: abs_of_pos)
  with assms have e: "expo x = - 126" by (intro expo_subnormal) simp_all
  then have u: "ulp x = 2 powr (- 149)" by (simp add: ulp_def)
  have "x / 2 powr (- 149) \<le> 2 powr (- 150) / 2 powr (- 149)"
    using assms by (intro divide_right_mono) simp_all
  also have "\<dots> = 2 powr (- 150 - (- 149))" by (simp only: powr_diff)
  also have "\<dots> = 1 / 2" by (simp add: powr_minus)
  finally have "x / ulp x \<le> 1 / 2" by (simp add: u)
  moreover have "0 \<le> x / ulp x" using assms ulp_pos [of x] by simp
  ultimately have "rne (x / ulp x) = 0" by (intro rne_half)
  then have "quantize x = 0" by (simp add: quantize_def)
  then show ?thesis by (simp add: round32_def)
qed

lemma round32_huge: assumes "2 ^ 128 \<le> x" shows "round32 x = PInf"
proof -
  have x0: "0 < x" using assms by (smt (verit) zero_less_power)
  have "(2::real) powr 128 \<le> x" using assms by simp
  then have "128 \<le> log 2 x" using x0 by (simp add: le_log_iff)
  then have "128 \<le> \<lfloor>log 2 \<bar>x\<bar>\<rfloor>" using x0 by (simp add: le_floor_iff)
  then have e: "128 \<le> expo x" using x0 by (simp add: expo_def)
  then have "- 126 < expo x" by simp
  from above_bottom [OF this] have "2 powr of_int (expo x) \<le> x" using x0 by simp
  then have "2 powr of_int (expo x) \<le> quantize x" unfolding bottom_grid by (rule quantize_ge_grid)
  moreover have "(2::real) powr of_int 128 \<le> 2 powr of_int (expo x)"
    using e by (intro powr_mono) simp_all
  moreover have "(2::real) powr of_int 128 = 2 ^ 128" by simp
  ultimately have "2 ^ 128 \<le> quantize x" by linarith
  then show ?thesis using x0 by (simp add: round32_def)
qed

lemma quantize_double: assumes "2 powr (- 126) \<le> \<bar>x\<bar>" shows "quantize (2 * x) = 2 * quantize x"
proof -
  have x0: "x \<noteq> 0" using assms by (smt (verit) powr_gt_zero)
  have ex: "- 126 < expo x \<or> expo x = - 126" using expo_ge [of x] by linarith
  have lo: "2 powr of_int (expo x) \<le> \<bar>x\<bar>"
    using ex assms above_bottom [of x] by auto
  have hi: "\<bar>x\<bar> < 2 powr of_int (expo x + 1)" by (rule below_top [OF x0])
  have "expo (2 * x) = expo x + 1"
  proof (rule expo_normal)
    show "- 126 \<le> expo x + 1" using expo_ge [of x] by linarith
    have "(2::real) powr of_int (expo x + 1) = 2 * 2 powr of_int (expo x)" by (rule pow2_succ)
    also have "\<dots> \<le> 2 * \<bar>x\<bar>" using lo by linarith
    also have "\<dots> = \<bar>2 * x\<bar>" by (simp add: abs_mult)
    finally show "2 powr of_int (expo x + 1) \<le> \<bar>2 * x\<bar>" .
    have "\<bar>2 * x\<bar> = 2 * \<bar>x\<bar>" by (simp add: abs_mult)
    also have "\<dots> < 2 * 2 powr of_int (expo x + 1)" using hi by linarith
    also have "\<dots> = 2 powr of_int (expo x + 1 + 1)" by (rule pow2_succ [symmetric])
    finally show "\<bar>2 * x\<bar> < 2 powr of_int (expo x + 1 + 1)" .
  qed
  then have u: "ulp (2 * x) = 2 * ulp x" by (rule ulp_succ)
  show ?thesis by (simp add: quantize_def u)
qed

lemma quantize_abs_le: assumes "x \<noteq> 0" shows "\<bar>rne (x / ulp x)\<bar> \<le> 2 ^ 24"
proof -
  have "\<bar>x\<bar> < of_int (2 ^ 24) * ulp x" using below_top [OF assms] by (simp only: top_grid)
  then have "\<bar>x\<bar> / ulp x < of_int (2 ^ 24)" using ulp_pos [of x] by (simp add: pos_divide_less_eq)
  then have b: "\<bar>x / ulp x\<bar> < of_int (2 ^ 24)" using ulp_pos [of x] by simp
  then have "x / ulp x \<le> of_int (2 ^ 24)" by linarith
  then have 1: "rne (x / ulp x) \<le> 2 ^ 24" by (rule rne_upper)
  from b have "- of_int (2 ^ 24) \<le> x / ulp x" by linarith
  then have "of_int (- (2 ^ 24)) \<le> x / ulp x" by (simp only: of_int_minus)
  then have 2: "- (2 ^ 24) \<le> rne (x / ulp x)" by (rule rne_lower)
  from 1 2 show ?thesis by linarith
qed

lemma quantize_idem: "quantize (quantize x) = quantize x"
proof (cases "x = 0")
  case True then show ?thesis by (simp add: quantize_0)
next
  case x0: False
  define m where "m = rne (x / ulp x)"
  define y where "y = quantize x"
  have y: "y = of_int m * ulp x" by (simp add: y_def m_def quantize_def)
  have mb: "\<bar>m\<bar> \<le> 2 ^ 24" unfolding m_def by (rule quantize_abs_le [OF x0])
  show ?thesis
  proof (cases "m = 0")
    case True
    then have "y = 0" by (simp add: y)
    then show ?thesis unfolding y_def [symmetric] by (simp add: quantize_0)
  next
    case m0: False
    then have y0: "y \<noteq> 0" using ulp_pos [of x] by (simp add: y)
    have yabs: "\<bar>y\<bar> = of_int \<bar>m\<bar> * ulp x" using ulp_pos [of x] by (simp add: y abs_mult)
    show ?thesis
    proof (cases "\<bar>m\<bar> = 2 ^ 24")
      case True
      then have ya: "\<bar>y\<bar> = 2 powr of_int (expo x + 1)" by (simp only: yabs top_grid)
      have "expo y = expo x + 1"
      proof (rule expo_normal)
        show "- 126 \<le> expo x + 1" using expo_ge [of x] by linarith
        show "2 powr of_int (expo x + 1) \<le> \<bar>y\<bar>" by (simp add: ya)
        have "(2::real) powr of_int (expo x + 1 + 1) = 2 * 2 powr of_int (expo x + 1)"
          by (rule pow2_succ)
        moreover have "0 < (2::real) powr of_int (expo x + 1)" by simp
        ultimately show "\<bar>y\<bar> < 2 powr of_int (expo x + 1 + 1)"
          unfolding ya by linarith
      qed
      then have u: "ulp y = 2 * ulp x" by (rule ulp_succ)
      have "y / ulp y = y / (2 * ulp x)" by (simp only: u)
      also have "\<dots> = of_int m / 2" using ulp_pos [of x] by (simp add: y)
      finally have r: "y / ulp y = of_int m / 2" .
      from True have "m = 2 ^ 24 \<or> m = - (2 ^ 24)" by linarith
      then have "y / ulp y = of_int (2 ^ 23) \<or> y / ulp y = of_int (- (2 ^ 23))"
        unfolding r by auto
      then have "quantize y = y" by (rule disjE) (erule quantize_int_grid)+
      then show ?thesis by (simp add: y_def)
    next
      case False
      with mb have "\<bar>m\<bar> < 2 ^ 24" by linarith
      then have "(of_int \<bar>m\<bar> :: real) < of_int (2 ^ 24)" by (simp only: of_int_less_iff)
      then have "\<bar>y\<bar> < of_int (2 ^ 24) * ulp x" using ulp_pos [of x] by (simp add: yabs)
      then have "\<bar>y\<bar> < 2 powr of_int (expo x + 1)" by (simp only: top_grid)
      with y0 expo_ge [of x] have le: "expo y \<le> expo x" by (intro expo_le)
      define d where "d = nat (expo x - expo y)"
      have "(of_int (expo x - 23) :: real) = of_int (expo y - 23) + real d"
        using le by (simp add: d_def)
      then have "ulp x = 2 powr (of_int (expo y - 23) + real d)" by (simp only: ulp_def)
      also have "\<dots> = ulp y * 2 powr real d" by (simp only: powr_add ulp_def)
      also have "\<dots> = ulp y * 2 ^ d" by (simp add: powr_realpow)
      finally have ux: "ulp x = ulp y * 2 ^ d" .
      have "y = of_int m * (ulp y * 2 ^ d)" by (subst ux [symmetric]) (rule y)
      then have "y / ulp y = of_int m * (ulp y * 2 ^ d) / ulp y" by simp
      also have "\<dots> = of_int (m * 2 ^ d)" using ulp_pos [of y] by simp
      finally have "y / ulp y = of_int (m * 2 ^ d)" .
      then have "quantize y = y" by (rule quantize_int_grid)
      then show ?thesis by (simp add: y_def)
    qed
  qed
qed

subsection \<open>Rounding near \<open>\<pi>\<close>\<close>

lemma quantize_pi_half: "2 * quantize (pi / 4) = quantize (pi / 2)"
proof -
  have "2 powr (- 126) \<le> (2::real) powr (- 1)" by (rule powr_mono) simp_all
  also have "\<dots> = 1 / 2" by (simp add: powr_minus)
  also have "\<dots> \<le> \<bar>pi / 4\<bar>" using pi_ge_two by simp
  finally have "2 powr (- 126) \<le> \<bar>pi / 4\<bar>" .
  from quantize_double [OF this] show ?thesis by simp
qed

lemma quantize_pi: "2 * quantize (pi / 2) = quantize pi"
proof -
  have "2 powr (- 126) \<le> (2::real) powr 0" by (rule powr_mono) simp_all
  also have "\<dots> \<le> \<bar>pi / 2\<bar>" using pi_ge_two by simp
  finally have "2 powr (- 126) \<le> \<bar>pi / 2\<bar>" .
  from quantize_double [OF this] show ?thesis by simp
qed

lemma quantize_le_pow2:
  assumes "0 < x" "x \<le> 2 ^ n" shows "quantize x \<le> 2 ^ n"
proof -
  have "quantize x \<le> quantize (2 ^ n)" using assms by (rule quantize_mono)
  also have "quantize (2 ^ n) = 2 ^ n"
  proof (rule quantize_int_grid)
    have "expo (2 ^ n) = int n"
      by (rule expo_normal) (simp_all add: powr_realpow powr_add)
    then have "ulp (2 ^ n) = 2 powr (real n - 23)" by (simp add: ulp_def)
    then have "2 ^ n / ulp (2 ^ n) = 2 powr real n / 2 powr (real n - 23)"
      by (simp add: powr_realpow)
    also have "\<dots> = 2 powr (real n - (real n - 23))" by (simp only: powr_diff)
    also have "\<dots> = of_int (2 ^ 23)" by simp
    finally show "2 ^ n / ulp (2 ^ n) = of_int (2 ^ 23)" .
  qed
  finally show ?thesis .
qed

lemma quantize_pi_le: "quantize pi \<le> 4"
  using quantize_le_pow2 [of pi 2] pi_less_4 pi_gt_zero by simp

lemma round32_small_pos:
  assumes "0 < x" "x \<le> 4" shows "round32 x = Finite (quantize x)"
proof -
  have "quantize x \<le> 2 ^ 2" using assms quantize_le_pow2 [of x 2] by simp
  moreover have "0 \<le> quantize x" using assms by (intro quantize_nonneg) simp
  ultimately have "\<bar>quantize x\<bar> < 2 ^ 128" by simp
  then show ?thesis using assms by (simp add: round32_def)
qed

lemma exp_minus_200: "exp (- 200 :: real) \<le> 2 powr (- 150)"
proof -
  have "ln (2::real) \<le> 2 - 1" by (rule ln_le_minus_one) simp
  then have "- 200 \<le> - 150 * ln (2::real)" by simp
  then have "exp (- 200) \<le> exp (- 150 * ln (2::real))" by (simp only: exp_le_cancel_iff)
  then show ?thesis by (simp add: powr_def)
qed

lemma fmul_two_bound:
  assumes "0 \<le> a" "a \<le> quantize (pi / 2)"
  shows "\<exists>t. fmul (Finite 2) (Finite a) = Finite t \<and> 0 \<le> t \<and> t \<le> quantize pi"
proof (cases "a = 0")
  case True
  have "0 \<le> quantize pi" using pi_gt_zero by (intro quantize_nonneg) simp
  with True show ?thesis by (simp add: round32_0)
next
  case False
  with assms have pos: "0 < 2 * a" by simp
  have le: "2 * a \<le> quantize pi" using assms by (simp add: quantize_pi [symmetric])
  with quantize_pi_le have "2 * a \<le> 4" by linarith
  with pos have r: "round32 (2 * a) = Finite (quantize (2 * a))" by (rule round32_small_pos)
  have "quantize (2 * a) \<le> quantize (quantize pi)" using pos le by (rule quantize_mono)
  then have "quantize (2 * a) \<le> quantize pi" by (simp add: quantize_idem)
  moreover have "0 \<le> quantize (2 * a)" using pos by (intro quantize_nonneg) simp
  ultimately show ?thesis by (simp add: r)
qed

lemma round32_pi: "round32 pi = Finite (quantize pi)"
  using pi_gt_zero pi_less_4 by (intro round32_small_pos) simp_all

lemma round32_pi_half: "round32 (pi / 2) = Finite (quantize (pi / 2))"
  using pi_gt_zero pi_less_4 by (intro round32_small_pos) simp_all

subsection \<open>The crossed-rows ratio\<close>

lemma ratio_one: assumes "f \<noteq> 0" shows "TPCCrossedRowsOverFindableCls f f = Finite 1"
proof -
  have "real (unat f) \<noteq> 0" using assms by (simp add: unsigned_eq_0_iff)
  then show ?thesis
    by (simp add: TPCCrossedRowsOverFindableCls_def float_of_uint8_def round32_1 del: of_nat_unat)
qed

lemma ratio_zero_den: "TPCCrossedRowsOverFindableCls 0 c = (if c = 0 then NaN else PInf)"
proof (cases "c = 0")
  case True
  then show ?thesis by (simp add: TPCCrossedRowsOverFindableCls_def float_of_uint8_def)
next
  case False
  then have "0 < real (unat c)" by (simp add: unat_gt_0 del: of_nat_unat)
  with False show ?thesis
    by (simp add: TPCCrossedRowsOverFindableCls_def float_of_uint8_def inf_of_sign_def
        del: of_nat_unat)
qed

subsection \<open>Rounding is odd\<close>

lemma rne_minus: "rne (- z) = - rne z"
proof (cases "z = of_int \<lfloor>z\<rfloor>")
  case True
  then obtain k where "z = of_int k" ..
  then have "- z = of_int (- k)" by simp
  then show ?thesis unfolding \<open>z = of_int k\<close> by (simp only: rne_of_int)
next
  case False
  then have lt: "of_int \<lfloor>z\<rfloor> < z" "z < of_int \<lfloor>z\<rfloor> + 1" by linarith+
  then have fl: "\<lfloor>- z\<rfloor> = - \<lfloor>z\<rfloor> - 1" by linarith
  show ?thesis using lt by (auto simp: rne_def Let_def fl)
qed

lemma expo_minus: "expo (- x) = expo x"
  by (simp add: expo_def)

lemma quantize_minus: "quantize (- x) = - quantize x"
  by (simp add: quantize_def ulp_def expo_minus rne_minus)

lemma round32_unit: assumes "\<bar>x\<bar> \<le> 1" shows "round32 x = Finite (quantize x)"
proof -
  have pos: "quantize y \<le> 1" if "0 < y" "y \<le> 1" for y
    using quantize_le_pow2 [of y 0] that by simp
  have "\<bar>quantize x\<bar> \<le> 1"
  proof (cases "0 < x")
    case True
    with assms pos [of x] quantize_nonneg [of x] show ?thesis by simp
  next
    case False
    show ?thesis
    proof (cases "x = 0")
      case True then show ?thesis by (simp add: quantize_0)
    next
      case nz: False
      with False assms have "0 < - x" "- x \<le> 1" by simp_all
      with pos [of "- x"] quantize_nonneg [of "- x"] show ?thesis
        by (simp add: quantize_minus)
    qed
  qed
  then have "\<bar>quantize x\<bar> < 2 ^ 128" by simp
  then show ?thesis by (simp add: round32_def quantize_0)
qed

lemma quantize_pi_half_err: "\<bar>quantize (pi / 2) - pi / 2\<bar> \<le> 1 / 2 ^ 24"
proof -
  have "expo (pi / 2) = 0" using pi_ge_two pi_less_4 by (intro expo_normal) simp_all
  then have "ulp (pi / 2) = 2 powr (- 23)" by (simp add: ulp_def)
  also have "\<dots> = 1 / 2 ^ 23" by (simp add: powr_minus field_simps)
  finally have "ulp (pi / 2) / 2 = 1 / 2 ^ 24" by simp
  with quantize_err [of "pi / 2"] show ?thesis by simp
qed

subsection \<open>The binary32 value of \<open>\<pi>\<close>\<close>

lemma arctan_bracket:
  fixes x :: real
  assumes "0 < x" "x \<le> 1"
  shows "(\<Sum>i<2*n. (- 1) ^ i * (1 / real (i * 2 + 1) * x ^ (i * 2 + 1))) \<le> arctan x"
    and "arctan x \<le> (\<Sum>i<2*n+1. (- 1) ^ i * (1 / real (i * 2 + 1) * x ^ (i * 2 + 1)))"
proof -
  have ax: "\<bar>x\<bar> \<le> 1" using assms by simp
  have pos: "0 < 1 / real (0 * 2 + 1) * x ^ (0 * 2 + 1)" using assms by simp
  from summable_Leibniz(2) [OF zeroseq_arctan_series [OF ax] monoseq_arctan_series [OF ax]] pos
  have "\<forall>n. (\<Sum>i. (- 1) ^ i * (1 / real (i * 2 + 1) * x ^ (i * 2 + 1)))
      \<in> {\<Sum>i<2*n. (- 1) ^ i * (1 / real (i * 2 + 1) * x ^ (i * 2 + 1)) ..
          \<Sum>i<2*n+1. (- 1) ^ i * (1 / real (i * 2 + 1) * x ^ (i * 2 + 1))}"
    by blast
  then show "(\<Sum>i<2*n. (- 1) ^ i * (1 / real (i * 2 + 1) * x ^ (i * 2 + 1))) \<le> arctan x"
    and "arctan x \<le> (\<Sum>i<2*n+1. (- 1) ^ i * (1 / real (i * 2 + 1) * x ^ (i * 2 + 1)))"
    unfolding arctan_series [OF ax] by simp_all
qed

lemma pi_lower: "26353589 / 8388608 < pi"
proof -
  have a: "(\<Sum>i<2*3. (- 1) ^ i * (1 / real (i * 2 + 1) * (1 / 5) ^ (i * 2 + 1))) \<le> arctan (1 / 5 :: real)"
    by (rule arctan_bracket) simp_all
  have b: "arctan (1 / 239 :: real) \<le> (\<Sum>i<2*1+1. (- 1) ^ i * (1 / real (i * 2 + 1) * (1 / 239) ^ (i * 2 + 1)))"
    by (rule arctan_bracket) simp_all
  have "pi = 16 * arctan (1 / 5) - 4 * arctan (1 / 239)" using machin by simp
  with a b show ?thesis by (simp add: eval_nat_numeral)
qed

lemma pi_upper: "pi < 13176795 / 4194304"
proof -
  have a: "arctan (1 / 5 :: real) \<le> (\<Sum>i<2*3+1. (- 1) ^ i * (1 / real (i * 2 + 1) * (1 / 5) ^ (i * 2 + 1)))"
    by (rule arctan_bracket) simp_all
  have b: "(\<Sum>i<2*1. (- 1) ^ i * (1 / real (i * 2 + 1) * (1 / 239) ^ (i * 2 + 1))) \<le> arctan (1 / 239 :: real)"
    by (rule arctan_bracket) simp_all
  have "pi = 16 * arctan (1 / 5) - 4 * arctan (1 / 239)" using machin by simp
  with a b show ?thesis by (simp add: eval_nat_numeral)
qed

lemma rne_up: assumes "of_int k - 1 / 2 < z" "z \<le> of_int k" shows "rne z = k"
proof (cases "z = of_int k")
  case True then show ?thesis by (simp add: rne_of_int)
next
  case False
  with assms have "of_int (k - 1) \<le> z" "z < of_int (k - 1) + 1" by simp_all
  then have fl: "\<lfloor>z\<rfloor> = k - 1" by (simp only: floor_unique)
  show ?thesis using assms by (simp add: rne_def Let_def fl)
qed

lemma expo_pi: "expo pi = 1"
  using pi_ge_two pi_less_4 by (intro expo_normal) simp_all

lemma quantize_pi_value: "quantize pi = 13176795 / 4194304"
proof -
  have u: "ulp pi = 1 / 4194304" by (simp add: ulp_def expo_pi powr_minus)
  have "rne (pi / ulp pi) = 13176795"
    using pi_lower pi_upper by (intro rne_up) (simp_all add: u)
  then show ?thesis by (simp add: quantize_def u)
qed

lemma quantize_pi_half_value: "quantize (pi / 2) = 13176795 / 8388608"
  using quantize_pi quantize_pi_value by simp

lemma exp_200: "2 ^ 128 \<le> exp (200 :: real)"
proof -
  have "ln (2::real) \<le> 2 - 1" by (rule ln_le_minus_one) simp
  then have "128 * ln (2::real) \<le> 200" by simp
  then have "exp (128 * ln (2::real)) \<le> exp 200" by (simp only: exp_le_cancel_iff)
  moreover have "exp (128 * ln (2::real)) = 2 powr 128" by (simp add: powr_def)
  ultimately show ?thesis by simp
qed

subsection \<open>Rounding errors\<close>

lemma ulp_bound: "ulp x \<le> \<bar>x\<bar> / 2 ^ 23 + 1 / 2 ^ 149"
proof (cases "expo x = - 126")
  case True
  then have "ulp x = 1 / 2 ^ 149" by (simp add: ulp_def powr_minus field_simps)
  then show ?thesis by simp
next
  case False
  with expo_ge [of x] have "- 126 < expo x" by linarith
  from above_bottom [OF this] have "of_int (2 ^ 23) * ulp x \<le> \<bar>x\<bar>" by (simp only: bottom_grid)
  then have "ulp x \<le> \<bar>x\<bar> / 2 ^ 23" by (simp add: field_simps)
  then show ?thesis by (smt (verit) divide_nonneg_pos zero_less_power)
qed

lemma quantize_rel_err: "\<bar>quantize x - x\<bar> \<le> \<bar>x\<bar> / 2 ^ 24 + 1 / 2 ^ 150"
  using quantize_err [of x] ulp_bound [of x] by simp

lemma round32_Finite: "round32 x = Finite y \<Longrightarrow> y = quantize x"
  by (auto simp: round32_def quantize_0 split: if_splits)

lemma sq_err:
  fixes x a r d :: real
  assumes "\<bar>x - a\<bar> \<le> r" "\<bar>a\<bar> \<le> d"
  shows "\<bar>x\<^sup>2 - a\<^sup>2\<bar> \<le> r * (2 * d + r)"
proof -
  have r0: "0 \<le> r" using assms(1) by linarith
  have "\<bar>x + a\<bar> \<le> 2 * d + r" using assms by linarith
  have "x\<^sup>2 - a\<^sup>2 = (x - a) * (x + a)" by (simp add: power2_eq_square algebra_simps)
  then have "\<bar>x\<^sup>2 - a\<^sup>2\<bar> = \<bar>x - a\<bar> * \<bar>x + a\<bar>" by (simp add: abs_mult)
  also have "\<dots> \<le> r * (2 * d + r)"
    using assms(1) \<open>\<bar>x + a\<bar> \<le> 2 * d + r\<close> r0 by (intro mult_mono) simp_all
  finally show ?thesis .
qed

lemma sinh_200: "2 ^ 128 \<le> sinh (200 :: real)"
proof -
  have "ln (2::real) \<le> 2 - 1" by (rule ln_le_minus_one) simp
  then have "130 * ln (2::real) \<le> 200" by simp
  then have "exp (130 * ln (2::real)) \<le> exp 200" by (simp only: exp_le_cancel_iff)
  moreover have "exp (130 * ln (2::real)) = 2 powr 130" by (simp add: powr_def)
  ultimately have 1: "2 ^ 130 \<le> exp (200 :: real)" by simp
  define y z :: real where "y = exp (- 200)" and "z = exp 200"
  have "y \<le> 1" "2 ^ 130 \<le> z" using 1 by (simp_all add: y_def z_def)
  moreover have "sinh (200 :: real) = (z - y) / 2" by (simp add: sinh_field_def y_def z_def)
  ultimately show ?thesis by simp
qed

lemma cosh_200: "2 ^ 128 \<le> cosh (200 :: real)"
  using sinh_200 sinh_le_cosh_real [of 200] by linarith

subsection \<open>Rounding without overflow\<close>

lemma quantize_abs_le_pow2: assumes "\<bar>x\<bar> \<le> 2 ^ n" shows "\<bar>quantize x\<bar> \<le> 2 ^ n"
proof -
  have pos: "\<bar>quantize y\<bar> \<le> 2 ^ n" if "0 < y" "y \<le> 2 ^ n" for y
    using quantize_le_pow2 [OF that] quantize_nonneg [of y] that by simp
  show ?thesis
  proof (cases "0 < x")
    case True
    with assms pos [of x] show ?thesis by simp
  next
    case False
    show ?thesis
    proof (cases "x = 0")
      case True then show ?thesis by (simp add: quantize_0)
    next
      case nz: False
      with False assms have "0 < - x" "- x \<le> 2 ^ n" by simp_all
      from pos [OF this] show ?thesis by (simp add: quantize_minus)
    qed
  qed
qed

lemma round32_bounded: assumes "\<bar>x\<bar> \<le> 2 ^ 127" shows "round32 x = Finite (quantize x)"
proof -
  have "\<bar>quantize x\<bar> \<le> 2 ^ 127" using assms by (rule quantize_abs_le_pow2)
  then have "\<bar>quantize x\<bar> < 2 ^ 128" by simp
  then show ?thesis by (simp add: round32_def quantize_0)
qed

lemma fmul_one_rounding:
  assumes "\<bar>a * s\<bar> \<le> 2 ^ 127"
  shows "fmul (Finite a) (Finite s) = Finite (quantize (a * s))"
  using round32_bounded [OF assms] by simp

lemma product_rounded_once:
  assumes "x = Finite a" "y = Finite s" "\<bar>a * s\<bar> \<le> 2 ^ 127"
  shows "fmul x y = Finite (quantize (a * s)) \<and>
    \<bar>quantize (a * s) - a * s\<bar> \<le> \<bar>a * s\<bar> / 2 ^ 24 + 1 / 2 ^ 150"
  using fmul_one_rounding [OF assms(3)] quantize_rel_err [of "a * s"]
  unfolding assms(1,2) by blast

subsection \<open>The correctly rounded library\<close>

lemma nearest_sel:
  "std_exp nearest_cmath = nearest_exp" "std_atan nearest_cmath = nearest_atan"
  "std_sin nearest_cmath = nearest_sin" "std_cos nearest_cmath = nearest_cos"
  "std_sinh nearest_cmath = nearest_sinh" "std_cosh nearest_cmath = nearest_cosh"
  by (simp_all add: nearest_cmath_def)

lemma nearest_exact_at_zero: "exact_at_zero nearest_cmath"
  by (simp add: exact_at_zero_def nearest_sel round32_0 round32_1)

lemma quantize_pi_quarter_value: "quantize (pi / 4) = 13176795 / 16777216"
  using quantize_pi_half quantize_pi_half_value by simp

lemma nearest_atan_one: "std_atan nearest_cmath (Finite 1) = Finite (13176795 / 16777216)"
proof -
  have "round32 (pi / 4) = Finite (quantize (pi / 4))"
    using pi_gt_zero pi_less_4 by (intro round32_small_pos) simp_all
  then show ?thesis by (simp add: nearest_sel arctan_one quantize_pi_quarter_value)
qed

lemma is_binary32_minus: "is_binary32 (- x) = is_binary32 x"
  by (auto simp: is_binary32_def quantize_minus)

lemma is_binary32_1: "is_binary32 1"
  by (simp add: is_binary32_def quantize_1)

lemma round32_is_binary32: "round32 x = Finite q \<Longrightarrow> is_binary32 q"
  by (auto simp: round32_def is_binary32_def quantize_0 quantize_idem split: if_splits)

lemma nearest_exp_range: "exp_range nearest_cmath"
  unfolding exp_range_def
proof (intro allI impI)
  fix x :: real
  show "std_exp nearest_cmath (Finite x) = PInf \<or>
      (\<exists>q. std_exp nearest_cmath (Finite x) = Finite q \<and> 0 \<le> q \<and> is_binary32 q)"
  proof (cases "round32 (exp x)")
    case (Finite q)
    then have "q = quantize (exp x)" by (rule round32_Finite)
    then have "0 \<le> q" using quantize_nonneg [of "exp x"] by simp
    with Finite round32_is_binary32 [OF Finite] show ?thesis by (simp add: nearest_sel)
  next
    case PInf
    then show ?thesis by (simp add: nearest_sel)
  next
    case NInf
    then show ?thesis by (simp add: round32_def split: if_splits)
  next
    case NaN
    then show ?thesis by (simp add: round32_def split: if_splits)
  qed
qed

lemma nearest_atan_nonneg:
  assumes "0 \<le> q"
  shows "\<exists>a. nearest_atan (Finite q) = Finite a \<and> 0 \<le> a \<and> a \<le> quantize (pi / 2)"
proof (cases "q = 0")
  case True
  have "0 \<le> quantize (pi / 2)" using pi_gt_zero by (intro quantize_nonneg) simp
  with True show ?thesis by (simp add: round32_0)
next
  case False
  with assms have "0 < arctan q" by (simp add: zero_less_arctan_iff)
  moreover have "arctan q < pi / 2" by (rule arctan_ubound)
  ultimately have "round32 (arctan q) = Finite (quantize (arctan q))"
    "quantize (arctan q) \<le> quantize (pi / 2)" "0 \<le> quantize (arctan q)"
    using pi_less_4 by (auto intro!: round32_small_pos quantize_mono quantize_nonneg)
  then show ?thesis by simp
qed

lemma nearest_atan_range: "atan_range nearest_cmath"
  unfolding atan_range_def
proof (intro allI impI)
  fix y :: float
  assume "y = PInf \<or> (\<exists>q. y = Finite q \<and> 0 \<le> q \<and> is_binary32 q)"
  then show "\<exists>a. std_atan nearest_cmath y = Finite a \<and> 0 \<le> a \<and> a \<le> 13176795 / 8388608"
  proof
    assume "y = PInf"
    then have "std_atan nearest_cmath y = Finite (13176795 / 8388608)"
      by (simp add: nearest_sel round32_pi_half quantize_pi_half_value)
    then show ?thesis by (intro exI [of _ "13176795 / 8388608"]) simp
  next
    assume "\<exists>q. y = Finite q \<and> 0 \<le> q \<and> is_binary32 q"
    then obtain q where q: "y = Finite q" "0 \<le> q" by blast
    from nearest_atan_nonneg [OF q(2)] obtain a where
      "nearest_atan (Finite q) = Finite a" "0 \<le> a" "a \<le> quantize (pi / 2)" by blast
    then show ?thesis
      by (intro exI [of _ a]) (simp add: nearest_sel q(1) quantize_pi_half_value)
  qed
qed

lemma round32_within_2ulp:
  assumes "\<And>x. g (Finite x) = round32 (F x)"
  shows "within_2ulp g F"
  unfolding within_2ulp_def
proof (intro allI impI, elim conjE)
  fix x :: real
  assume b: "\<bar>F x\<bar> \<le> 2 ^ 127"
  have "\<bar>quantize (F x) - F x\<bar> \<le> \<bar>F x\<bar> / 2 ^ 24 + 1 / 2 ^ 150" by (rule quantize_rel_err)
  also have "\<dots> \<le> \<bar>F x\<bar> / 2 ^ 22 + 1 / 2 ^ 148"
  proof -
    have "\<bar>F x\<bar> / 2 ^ 24 \<le> \<bar>F x\<bar> / 2 ^ 22" by (intro divide_left_mono) simp_all
    moreover have "(1::real) / 2 ^ 150 \<le> 1 / 2 ^ 148" by simp
    ultimately show ?thesis by linarith
  qed
  finally show "\<exists>s. g (Finite x) = Finite s \<and> \<bar>s - F x\<bar> \<le> \<bar>F x\<bar> / 2 ^ 22 + 1 / 2 ^ 148"
    using round32_bounded [OF b] by (simp add: assms)
qed

lemma nearest_accurate: "two_ulp_accurate nearest_cmath"
  unfolding two_ulp_accurate_def nearest_sel
  by (intro conjI round32_within_2ulp) simp_all

subsection \<open>The polar angle\<close>

lemma quantize_pi_half_pos: "0 < quantize (pi / 2)"
  by (simp add: quantize_pi_half_value)

lemma Theta_at_zero:
  assumes "std_exp L (Finite 0) = Finite 1"
    and "std_atan L (Finite 1) = Finite (13176795 / 16777216)"
  shows "Theta L (Finite 0) = Finite (13176795 / 8388608)"
proof -
  have "quantize (pi / 2) \<le> 4"
    using quantize_le_pow2 [of "pi / 2" 2] pi_less_4 pi_gt_zero by simp
  from round32_small_pos [OF quantize_pi_half_pos this]
  have "round32 (quantize (pi / 2)) = Finite (quantize (pi / 2))" by (simp add: quantize_idem)
  then have "round32 (13176795 / 8388608) = Finite (13176795 / 8388608)"
    by (simp add: quantize_pi_half_value)
  then show ?thesis by (simp add: Theta_def assms)
qed

lemma Theta_range:
  assumes "exp_range L" "atan_range L" "is_binary32 x"
  shows "fle (Finite 0) (Theta L (Finite x)) \<and> fle (Theta L (Finite x)) (round32 pi)"
proof -
  have "is_binary32 (- x)" using assms(3) by (simp add: is_binary32_minus)
  with assms(1) have "std_exp L (Finite (- x)) = PInf \<or>
      (\<exists>q. std_exp L (Finite (- x)) = Finite q \<and> 0 \<le> q \<and> is_binary32 q)"
    unfolding exp_range_def by blast
  with assms(2) have "\<exists>a. std_atan L (std_exp L (Finite (- x))) = Finite a \<and> 0 \<le> a \<and>
      a \<le> 13176795 / 8388608"
    unfolding atan_range_def by blast
  then obtain a where a: "std_atan L (std_exp L (fneg (Finite x))) = Finite a" "0 \<le> a"
    "a \<le> quantize (pi / 2)"
    by (auto simp: quantize_pi_half_value)
  from fmul_two_bound [OF a(2,3)] obtain t where
    t: "fmul (Finite 2) (Finite a) = Finite t" "0 \<le> t" "t \<le> quantize pi" by blast
  show ?thesis unfolding Theta_def a(1) t(1) by (simp add: round32_pi t)
qed

lemma Theta_200: "Theta nearest_cmath (Finite 200) = Finite 0"
proof -
  have "round32 (exp (- 200)) = Finite 0"
    by (rule round32_tiny) (simp_all add: exp_minus_200)
  then show ?thesis by (simp add: Theta_def nearest_sel round32_0)
qed

lemma Theta_minus_200: "Theta nearest_cmath (Finite (- 200)) = Finite (13176795 / 4194304)"
proof -
  have a: "std_exp nearest_cmath (fneg (Finite (- 200))) = PInf"
    using round32_huge [OF exp_200] by (simp add: nearest_sel)
  have q0: "0 < quantize pi" by (simp add: quantize_pi_value)
  have "round32 (quantize pi) = Finite (quantize (quantize pi))"
    using q0 quantize_pi_le by (rule round32_small_pos)
  then have c: "round32 (2 * quantize (pi / 2)) = Finite (quantize pi)"
    by (simp add: quantize_pi quantize_idem)
  show ?thesis
    unfolding Theta_def a by (simp add: nearest_sel round32_pi_half c quantize_pi_value)
qed

subsection \<open>The momentum identity\<close>

lemma Pz_P_nan:
  "Pz nearest_cmath (Finite 0) (Finite 200) = NaN \<and> P nearest_cmath (Finite 0) (Finite 200) = NaN"
  using round32_huge [OF sinh_200] round32_huge [OF cosh_200]
  by (simp add: Pz_def P_def nearest_sel)

lemma two_step_lib:
  fixes a s t c :: real
  assumes st: "\<bar>s - t\<bar> \<le> \<bar>t\<bar> / 2 ^ 22 + 1 / 2 ^ 148" and tc: "\<bar>t\<bar> \<le> c" and c1: "1 \<le> c"
  shows "\<bar>quantize (a * s) - a * t\<bar> \<le> 6 * (\<bar>a\<bar> * c) / 2 ^ 24 + 1 / 2 ^ 150"
    and "\<bar>a * s\<bar> \<le> 2 * (\<bar>a\<bar> * c)"
proof -
  define u :: real where "u = 1 / 2 ^ 24"
  define v :: real where "v = 1 / 2 ^ 150"
  have u0: "0 < u" "u \<le> 1" and v0: "0 < v" by (simp_all add: u_def v_def)
  have small: "4 * u * u + 4 * v * (1 + u) \<le> u" by (simp add: u_def v_def)
  have small2: "4 * u + 4 * v \<le> 1" by (simp add: u_def v_def)
  have st': "\<bar>s - t\<bar> \<le> 4 * u * c + 4 * v"
  proof -
    have "\<bar>s - t\<bar> \<le> 4 * u * \<bar>t\<bar> + 4 * v" using st by (simp add: u_def v_def)
    also have "\<dots> \<le> 4 * u * c + 4 * v" using tc u0 by (simp add: mult_left_mono)
    finally show ?thesis .
  qed
  then have sb: "\<bar>s\<bar> \<le> c + (4 * u * c + 4 * v)" using tc by linarith
  have sb2: "\<bar>s\<bar> \<le> 2 * c"
  proof -
    have "4 * u * c + 4 * v \<le> 4 * u * c + 4 * v * c" using c1 v0 by simp
    also have "\<dots> = (4 * u + 4 * v) * c" by (simp add: algebra_simps)
    also have "\<dots> \<le> 1 * c" using small2 c1 by (intro mult_right_mono) simp_all
    finally show ?thesis using sb by simp
  qed
  have "\<bar>a * s\<bar> = \<bar>a\<bar> * \<bar>s\<bar>" by (rule abs_mult)
  also have "\<dots> \<le> \<bar>a\<bar> * (2 * c)" using sb2 by (intro mult_left_mono) simp_all
  finally show "\<bar>a * s\<bar> \<le> 2 * (\<bar>a\<bar> * c)" by simp
  have 1: "\<bar>a * s - a * t\<bar> \<le> \<bar>a\<bar> * (4 * u * c + 4 * v)"
  proof -
    have "a * s - a * t = a * (s - t)" by (simp add: algebra_simps)
    then have "\<bar>a * s - a * t\<bar> = \<bar>a\<bar> * \<bar>s - t\<bar>" by (simp add: abs_mult)
    also have "\<dots> \<le> \<bar>a\<bar> * (4 * u * c + 4 * v)" using st' by (intro mult_left_mono) simp_all
    finally show ?thesis .
  qed
  have 2: "\<bar>quantize (a * s) - a * s\<bar> \<le> u * (\<bar>a\<bar> * (c + (4 * u * c + 4 * v))) + v"
  proof -
    have "\<bar>quantize (a * s) - a * s\<bar> \<le> u * \<bar>a * s\<bar> + v"
      using quantize_rel_err [of "a * s"] by (simp add: u_def v_def)
    also have "\<bar>a * s\<bar> = \<bar>a\<bar> * \<bar>s\<bar>" by (rule abs_mult)
    also have "u * (\<bar>a\<bar> * \<bar>s\<bar>) + v \<le> u * (\<bar>a\<bar> * (c + (4 * u * c + 4 * v))) + v"
      using sb u0 by (simp add: mult_left_mono)
    finally show ?thesis .
  qed
  have "\<bar>quantize (a * s) - a * t\<bar> \<le> \<bar>quantize (a * s) - a * s\<bar> + \<bar>a * s - a * t\<bar>"
    by linarith
  also have "\<dots> \<le> u * (\<bar>a\<bar> * (c + (4 * u * c + 4 * v))) + v + \<bar>a\<bar> * (4 * u * c + 4 * v)"
    using 1 2 by linarith
  also have "\<dots> = \<bar>a\<bar> * (c * (5 * u + 4 * u * u) + 4 * v * (1 + u)) + v"
    by (simp add: algebra_simps)
  also have "\<dots> \<le> \<bar>a\<bar> * (c * (6 * u)) + v"
  proof -
    have "4 * v * (1 + u) \<le> c * (4 * v * (1 + u))" using c1 v0 u0 by simp
    then have "c * (5 * u + 4 * u * u) + 4 * v * (1 + u)
        \<le> c * (5 * u + 4 * u * u) + c * (4 * v * (1 + u))" by simp
    also have "\<dots> = c * (5 * u + (4 * u * u + 4 * v * (1 + u)))" by (simp add: algebra_simps)
    also have "\<dots> \<le> c * (6 * u)" using small c1 by (intro mult_left_mono) simp_all
    finally have "c * (5 * u + 4 * u * u) + 4 * v * (1 + u) \<le> c * (6 * u)" .
    then show ?thesis by (simp add: mult_left_mono)
  qed
  finally show "\<bar>quantize (a * s) - a * t\<bar> \<le> 6 * (\<bar>a\<bar> * c) / 2 ^ 24 + 1 / 2 ^ 150"
    by (simp add: u_def v_def algebra_simps)
qed

lemma tolerance_poly:
  fixes D :: real
  assumes "0 \<le> D"
  shows "4 * ((6 * D / 2 ^ 24 + 1 / 2 ^ 150) * (2 * D + (6 * D / 2 ^ 24 + 1 / 2 ^ 150)))
       \<le> D\<^sup>2 / 2 ^ 18 + D / 2 ^ 146 + 1 / 2 ^ 298"
proof -
  define u :: real where "u = 1 / 2 ^ 24"
  define v :: real where "v = 1 / 2 ^ 150"
  have u0: "0 \<le> u" "9 * u \<le> 1" and v0: "0 \<le> v" by (simp_all add: u_def v_def)
  have a: "144 * u * u * D\<^sup>2 \<le> 16 * u * D\<^sup>2"
  proof -
    have "144 * u * u \<le> 16 * u" using u0 by (simp add: mult_right_mono)
    then show ?thesis by (rule mult_right_mono) simp
  qed
  have b: "48 * u * v * D \<le> 8 * v * D"
  proof -
    have "48 * u * v \<le> 8 * v" using u0 v0 by (simp add: mult_right_mono)
    then show ?thesis using assms by (rule mult_right_mono)
  qed
  have "4 * ((6 * D * u + v) * (2 * D + (6 * D * u + v)))
      = 48 * u * D\<^sup>2 + 144 * u * u * D\<^sup>2 + 8 * v * D + 48 * u * v * D + 4 * v * v"
    by (simp add: algebra_simps power2_eq_square)
  also have "\<dots> \<le> 64 * u * D\<^sup>2 + 16 * v * D + 4 * v * v" using a b by linarith
  finally have "4 * ((6 * D * u + v) * (2 * D + (6 * D * u + v)))
      \<le> 64 * u * D\<^sup>2 + 16 * v * D + 4 * v * v" .
  moreover have "64 * u = 1 / 2 ^ 18" "16 * v = 1 / 2 ^ 146" "4 * v * v = 1 / 2 ^ 298"
    by (simp_all add: u_def v_def)
  ultimately show ?thesis by (simp add: u_def v_def)
qed

lemma pythagoras_err:
  fixes a e f s1 c1 s2 c2 :: real
  defines "D \<equiv> \<bar>a\<bar> * cosh e"
  assumes e1: "\<bar>s1 - sin f\<bar> \<le> \<bar>sin f\<bar> / 2 ^ 22 + 1 / 2 ^ 148"
    and e2: "\<bar>c1 - cos f\<bar> \<le> \<bar>cos f\<bar> / 2 ^ 22 + 1 / 2 ^ 148"
    and e3: "\<bar>s2 - sinh e\<bar> \<le> \<bar>sinh e\<bar> / 2 ^ 22 + 1 / 2 ^ 148"
    and e4: "\<bar>c2 - cosh e\<bar> \<le> \<bar>cosh e\<bar> / 2 ^ 22 + 1 / 2 ^ 148"
  shows "\<bar>(quantize (a * s1))\<^sup>2 + (quantize (a * c1))\<^sup>2
          + (quantize (a * s2))\<^sup>2 - (quantize (a * c2))\<^sup>2\<bar>
        \<le> D\<^sup>2 / 2 ^ 18 + D / 2 ^ 146 + 1 / 2 ^ 298"
    and "\<bar>a * s1\<bar> \<le> 2 * D" and "\<bar>a * c1\<bar> \<le> 2 * D"
    and "\<bar>a * s2\<bar> \<le> 2 * D" and "\<bar>a * c2\<bar> \<le> 2 * D"
proof -
  define r where "r = 6 * D / 2 ^ 24 + 1 / 2 ^ 150"
  define X where "X = quantize (a * s1)"
  define Y where "Y = quantize (a * c1)"
  define Z where "Z = quantize (a * s2)"
  define W where "W = quantize (a * c2)"
  have ch1: "1 \<le> cosh e" by (rule cosh_real_ge_1)
  have D0: "0 \<le> D" using ch1 by (simp add: D_def)
  have aD: "\<bar>a\<bar> * 1 \<le> D" unfolding D_def using ch1 by (intro mult_left_mono) simp_all
  have sh: "\<bar>sinh e\<bar> \<le> cosh e"
  proof -
    have "\<bar>sinh e\<bar> = sinh \<bar>e\<bar>" by simp
    also have "\<dots> \<le> cosh \<bar>e\<bar>" by (rule sinh_le_cosh_real)
    finally show ?thesis by simp
  qed
  have chb: "\<bar>cosh e\<bar> \<le> cosh e" by simp
  have small: "6 * (\<bar>a\<bar> * 1) / 2 ^ 24 + 1 / 2 ^ 150 \<le> r" using aD by (simp add: r_def)
  have eX: "\<bar>X - a * sin f\<bar> \<le> r"
    using two_step_lib(1) [OF e1, of 1 a] small by (simp add: X_def)
  have eY: "\<bar>Y - a * cos f\<bar> \<le> r"
    using two_step_lib(1) [OF e2, of 1 a] small by (simp add: Y_def)
  have eZ: "\<bar>Z - a * sinh e\<bar> \<le> r"
    using two_step_lib(1) [OF e3 sh ch1, of a] by (simp add: Z_def r_def D_def)
  have eW: "\<bar>W - a * cosh e\<bar> \<le> r"
    using two_step_lib(1) [OF e4 chb ch1, of a] by (simp add: W_def r_def D_def)
  show "\<bar>a * s1\<bar> \<le> 2 * D" using two_step_lib(2) [OF e1, of 1 a] aD by simp
  show "\<bar>a * c1\<bar> \<le> 2 * D" using two_step_lib(2) [OF e2, of 1 a] aD by simp
  show "\<bar>a * s2\<bar> \<le> 2 * D" using two_step_lib(2) [OF e3 sh ch1, of a] by (simp add: D_def)
  show "\<bar>a * c2\<bar> \<le> 2 * D" using two_step_lib(2) [OF e4 chb ch1, of a] by (simp add: D_def)
  have bX: "\<bar>a * sin f\<bar> \<le> D"
  proof -
    have "\<bar>a * sin f\<bar> = \<bar>a\<bar> * \<bar>sin f\<bar>" by (rule abs_mult)
    also have "\<dots> \<le> \<bar>a\<bar> * 1" by (intro mult_left_mono) simp_all
    finally show ?thesis using aD by linarith
  qed
  have bY: "\<bar>a * cos f\<bar> \<le> D"
  proof -
    have "\<bar>a * cos f\<bar> = \<bar>a\<bar> * \<bar>cos f\<bar>" by (rule abs_mult)
    also have "\<dots> \<le> \<bar>a\<bar> * 1" by (intro mult_left_mono) simp_all
    finally show ?thesis using aD by linarith
  qed
  have bZ: "\<bar>a * sinh e\<bar> \<le> D"
  proof -
    have "\<bar>a * sinh e\<bar> = \<bar>a\<bar> * \<bar>sinh e\<bar>" by (rule abs_mult)
    also have "\<dots> \<le> \<bar>a\<bar> * cosh e" using sh by (intro mult_left_mono) simp_all
    finally show ?thesis by (simp add: D_def)
  qed
  have bW: "\<bar>a * cosh e\<bar> \<le> D" by (simp add: D_def abs_mult)
  note sX = sq_err [OF eX bX] and sY = sq_err [OF eY bY]
    and sZ = sq_err [OF eZ bZ] and sW = sq_err [OF eW bW]
  have ident: "(a * sin f)\<^sup>2 + (a * cos f)\<^sup>2 + (a * sinh e)\<^sup>2 = (a * cosh e)\<^sup>2"
  proof -
    have "(a * sin f)\<^sup>2 + (a * cos f)\<^sup>2 = a\<^sup>2 * ((sin f)\<^sup>2 + (cos f)\<^sup>2)"
      by (simp only: power_mult_distrib distrib_left)
    also have "\<dots> = a\<^sup>2" by simp
    finally have sc: "(a * sin f)\<^sup>2 + (a * cos f)\<^sup>2 = a\<^sup>2" .
    have "(a * sin f)\<^sup>2 + (a * cos f)\<^sup>2 + (a * sinh e)\<^sup>2 = a\<^sup>2 + a\<^sup>2 * (sinh e)\<^sup>2"
      using sc by (simp add: power_mult_distrib)
    also have "\<dots> = a\<^sup>2 * (1 + (sinh e)\<^sup>2)" by (simp add: algebra_simps)
    also have "\<dots> = a\<^sup>2 * (cosh e)\<^sup>2" by (simp add: cosh_square_eq)
    finally show ?thesis by (simp add: power_mult_distrib)
  qed
  have "\<bar>X\<^sup>2 + Y\<^sup>2 + Z\<^sup>2 - W\<^sup>2\<bar> \<le> 4 * (r * (2 * D + r))"
    using sX sY sZ sW ident by linarith
  also have "\<dots> \<le> D\<^sup>2 / 2 ^ 18 + D / 2 ^ 146 + 1 / 2 ^ 298"
    unfolding r_def by (rule tolerance_poly [OF D0])
  finally show "\<bar>(quantize (a * s1))\<^sup>2 + (quantize (a * c1))\<^sup>2
          + (quantize (a * s2))\<^sup>2 - (quantize (a * c2))\<^sup>2\<bar>
        \<le> D\<^sup>2 / 2 ^ 18 + D / 2 ^ 146 + 1 / 2 ^ 298"
    by (simp add: X_def Y_def Z_def W_def)
qed



lemma cosh_1_le: "cosh (1::real) \<le> 3"
proof -
  have "1 + (- (1 / 2)) \<le> exp (- (1 / 2) :: real)" by (rule exp_ge_add_one_self)
  then have "1 / 2 \<le> 1 / exp (1 / 2 :: real)" by (simp add: exp_minus inverse_eq_divide)
  then have h: "exp (1 / 2 :: real) \<le> 2" by (simp add: field_simps)
  have "exp (1::real) = exp (1 / 2) * exp (1 / 2)" by (simp add: exp_add [symmetric])
  also have "\<dots> \<le> 2 * 2" using h by (intro mult_mono) simp_all
  finally have e1: "exp (1::real) \<le> 4" by simp
  have "exp (- 1 :: real) \<le> exp 0" by (simp only: exp_le_cancel_iff)
  then have e2: "exp (- 1 :: real) \<le> 1" by simp
  have "cosh (1::real) = (exp 1 + exp (- 1)) / 2" by (simp add: cosh_field_def)
  also have "\<dots> \<le> (4 + 1) / 2" using e1 e2 by (intro divide_right_mono add_mono) simp_all
  finally show ?thesis by simp
qed

section \<open>The claims\<close>

lemmas table_defs = FDCollisions_def FDColMasks_def FDDownSample_def FDHfCand_def
  FDResultsHF_def FDHfCandMC_def FDHfCandMCGen_def FDParticlesIndex_def FDParticles_def
  FDExtParticles_def FDMCParticles_def FDExtMCParticles_def FDMCLabels_def
  FDExtMCLabels_def Hashes_def

lemmas getter_defs = px_def py_def pz_def p_def theta_def Px_def Py_def Pz_def P_def



text \<open>
  C2, as stated, fails: the polar angle of a finite pseudorapidity is not always strictly
  between 0 and \<open>\<pi>\<close>. With the correctly rounded library, at \<open>eta = 200\<close> the
  exponential \<open>exp(-200)\<close> is below half of the smallest binary32 number and is rounded
  to 0, so the getter returns exactly 0. At \<open>eta = -200\<close> the exponential overflows to
  \<open>+inf\<close>, the arc tangent is the binary32 number nearest to \<open>\<pi>/2\<close>, and the getter
  returns the binary32 number nearest to \<open>\<pi>\<close>, which is greater than \<open>\<pi>\<close>.
\<close>

theorem theta_interval_counterexample:
  "theta nearest_cmath
     \<lparr>fdCollisionId = 0, pt = Finite 1, eta = Finite 200, phi = Finite 0,
      partType = 0, cut = 0, pidcut = 0, tempFitVar = Finite 0, childrenIds = [],
      mLambda = Finite 0, mAntiLambda = Finite 0\<rparr> = Finite 0 \<and>
   theta nearest_cmath
     \<lparr>fdCollisionId = 0, pt = Finite 1, eta = Finite (- 200), phi = Finite 0,
      partType = 0, cut = 0, pidcut = 0, tempFitVar = Finite 0, childrenIds = [],
      mLambda = Finite 0, mAntiLambda = Finite 0\<rparr> = Finite (13176795 / 4194304) \<and>
   pi < 13176795 / 4194304"
  using pi_upper by (simp add: theta_def Theta_200 Theta_minus_200)

text \<open>
  C2, amended. The getter \<open>theta\<close> is the single-precision value of
  \<open>2 * atan(exp(-eta))\<close>, a function of the stored pseudorapidity only. With a library
  whose exponential of a binary32 number is a non-negative number or \<open>+inf\<close> and whose arc
  tangent maps the non-negative numbers and \<open>+inf\<close> to numbers between 0 and the binary32
  number nearest to \<open>\<pi>/2\<close>, it lies, for every finite \<open>eta\<close>, in the closed interval
  from 0 to the binary32 number nearest to \<open>\<pi>\<close>, which is \<open>13176795 / 2^22\<close>. With a
  library for which \<open>exp(0) = 1\<close> and \<open>atan(1)\<close> is the binary32 number nearest to
  \<open>\<pi>/4\<close>, it is at \<open>eta = 0\<close> the binary32 number nearest to \<open>\<pi>/2\<close>, which is
  \<open>13176795 / 2^23\<close>.
\<close>

theorem theta_closed_range:
  "theta L r = fmul (Finite 2) (std_atan L (std_exp L (fneg (eta r)))) \<and>
   (exp_range L \<and> atan_range L \<and> is_binary32 x \<longrightarrow>
      fle (Finite 0) (theta L (r\<lparr>eta := Finite x\<rparr>)) \<and>
      fle (theta L (r\<lparr>eta := Finite x\<rparr>)) (round32 pi)) \<and>
   (std_exp L (Finite 0) = Finite 1 \<and> std_atan L (Finite 1) = Finite (13176795 / 16777216) \<longrightarrow>
      theta L (r\<lparr>eta := Finite 0\<rparr>) = round32 (pi / 2)) \<and>
   round32 pi = Finite (13176795 / 4194304) \<and>
   round32 (pi / 2) = Finite (13176795 / 8388608)"
proof -
  have "theta L r = fmul (Finite 2) (std_atan L (std_exp L (fneg (eta r))))"
    by (simp add: theta_def Theta_def)
  moreover have "exp_range L \<and> atan_range L \<and> is_binary32 x \<longrightarrow>
      fle (Finite 0) (theta L (r\<lparr>eta := Finite x\<rparr>)) \<and>
      fle (theta L (r\<lparr>eta := Finite x\<rparr>)) (round32 pi)"
    using Theta_range [of L x] by (simp add: theta_def)
  moreover have "std_exp L (Finite 0) = Finite 1 \<and>
      std_atan L (Finite 1) = Finite (13176795 / 16777216) \<longrightarrow>
      theta L (r\<lparr>eta := Finite 0\<rparr>) = round32 (pi / 2)"
    using Theta_at_zero [of L]
    by (simp add: theta_def round32_pi_half quantize_pi_half_value)
  moreover have "round32 pi = Finite (13176795 / 4194304)"
    by (simp add: round32_pi quantize_pi_value)
  moreover have "round32 (pi / 2) = Finite (13176795 / 8388608)"
    by (simp add: round32_pi_half quantize_pi_half_value)
  ultimately show ?thesis by blast
qed

theorem theta_closed_range_witness:
  "exp_range nearest_cmath \<and> atan_range nearest_cmath \<and> is_binary32 1 \<and>
   std_exp nearest_cmath (Finite 0) = Finite 1 \<and>
   std_atan nearest_cmath (Finite 1) = Finite (13176795 / 16777216) \<and>
   fle (Finite 0) (theta nearest_cmath
     \<lparr>fdCollisionId = 0, pt = Finite 1, eta = Finite 1, phi = Finite 0,
      partType = 0, cut = 0, pidcut = 0, tempFitVar = Finite 0, childrenIds = [],
      mLambda = Finite 0, mAntiLambda = Finite 0\<rparr>) \<and>
   fle (theta nearest_cmath
     \<lparr>fdCollisionId = 0, pt = Finite 1, eta = Finite 1, phi = Finite 0,
      partType = 0, cut = 0, pidcut = 0, tempFitVar = Finite 0, childrenIds = [],
      mLambda = Finite 0, mAntiLambda = Finite 0\<rparr>) (Finite (13176795 / 4194304)) \<and>
   theta nearest_cmath
     \<lparr>fdCollisionId = 0, pt = Finite 1, eta = Finite 0, phi = Finite 0,
      partType = 0, cut = 0, pidcut = 0, tempFitVar = Finite 0, childrenIds = [],
      mLambda = Finite 0, mAntiLambda = Finite 0\<rparr> = Finite (13176795 / 8388608)"
  using theta_closed_range [of nearest_cmath
     "\<lparr>fdCollisionId = 0, pt = Finite 1, eta = Finite 0, phi = Finite 0,
      partType = 0, cut = 0, pidcut = 0, tempFitVar = Finite 0, childrenIds = [],
      mLambda = Finite 0, mAntiLambda = Finite 0\<rparr>" 1, THEN conjunct2]
    nearest_exp_range nearest_atan_range nearest_atan_one nearest_exact_at_zero
    is_binary32_1
  by (simp add: exact_at_zero_def round32_pi quantize_pi_value round32_pi_half
      quantize_pi_half_value)

text \<open>
  C3, as stated, fails: not every triple gives four numbers. With the correctly rounded
  library, for \<open>pt = 0\<close> and \<open>eta = 200\<close> the hyperbolic sine and cosine overflow to
  \<open>+inf\<close>, and \<open>0 * inf\<close> is NaN: \<open>pz\<close> and \<open>p\<close> are NaN, so no tolerance makes the two
  sides agree.
\<close>

theorem pythagoras_nan_counterexample:
  "pz nearest_cmath
     \<lparr>fdCollisionId = 0, pt = Finite 0, eta = Finite 200, phi = Finite 0,
      partType = 0, cut = 0, pidcut = 0, tempFitVar = Finite 0, childrenIds = [],
      mLambda = Finite 0, mAntiLambda = Finite 0\<rparr> = NaN \<and>
   p nearest_cmath
     \<lparr>fdCollisionId = 0, pt = Finite 0, eta = Finite 200, phi = Finite 0,
      partType = 0, cut = 0, pidcut = 0, tempFitVar = Finite 0, childrenIds = [],
      mLambda = Finite 0, mAntiLambda = Finite 0\<rparr> = NaN"
  using Pz_P_nan by (simp add: pz_def p_def)

text \<open>
  C3, amended. With a library whose sine, cosine, hyperbolic sine and hyperbolic cosine
  are accurate to two units in the last place, for every row with finite \<open>pt\<close>, \<open>eta\<close>
  and \<open>phi\<close> (binary32 numbers) such that \<open>cosh(eta)\<close> and \<open>P = |pt| * cosh(eta)\<close>, the exact total momentum,
  do not exceed \<open>2^126\<close>, the four derived values \<open>px\<close>, \<open>py\<close>, \<open>pz\<close>, \<open>p\<close> are
  finite and satisfy the identity up to rounding:
  \<open>|px^2 + py^2 + pz^2 - p^2| \<le> P^2 / 2^18 + P / 2^146 + 1 / 2^298\<close>.
\<close>

theorem pythagoras_tolerance:
  "two_ulp_accurate L \<and> pt r = Finite a \<and> eta r = Finite e \<and> phi r = Finite f \<and>
   is_binary32 e \<and> is_binary32 f \<and>
   cosh e \<le> 2 ^ 126 \<and> \<bar>a\<bar> * cosh e \<le> 2 ^ 126 \<longrightarrow>
   (\<exists>X Y Z W. px L r = Finite X \<and> py L r = Finite Y \<and> pz L r = Finite Z \<and>
      p L r = Finite W \<and>
      \<bar>X\<^sup>2 + Y\<^sup>2 + Z\<^sup>2 - W\<^sup>2\<bar>
        \<le> (\<bar>a\<bar> * cosh e)\<^sup>2 / 2 ^ 18 + \<bar>a\<bar> * cosh e / 2 ^ 146 + 1 / 2 ^ 298)"
proof (intro impI, elim conjE)
  assume acc: "two_ulp_accurate L"
    and a: "pt r = Finite a" and e: "eta r = Finite e" and f: "phi r = Finite f"
    and re: "is_binary32 e" and rf: "is_binary32 f"
    and ce: "cosh e \<le> 2 ^ 126" and D: "\<bar>a\<bar> * cosh e \<le> 2 ^ 126"
  have sh: "\<bar>sinh e\<bar> \<le> cosh e"
  proof -
    have "\<bar>sinh e\<bar> = sinh \<bar>e\<bar>" by simp
    also have "\<dots> \<le> cosh \<bar>e\<bar>" by (rule sinh_le_cosh_real)
    finally show ?thesis by simp
  qed
  have one: "(1::real) \<le> 2 ^ 127" by simp
  have b1: "\<bar>sin f\<bar> \<le> 2 ^ 127" "\<bar>cos f\<bar> \<le> 2 ^ 127"
    using order_trans [OF abs_sin_le_one one] order_trans [OF abs_cos_le_one one] by blast+
  have b2: "\<bar>sinh e\<bar> \<le> 2 ^ 127" "\<bar>cosh e\<bar> \<le> 2 ^ 127" using sh ce by simp_all
  from acc b1 b2 re rf obtain s1 c1 s2 c2 where
    l1: "std_sin L (Finite f) = Finite s1"
      and e1: "\<bar>s1 - sin f\<bar> \<le> \<bar>sin f\<bar> / 2 ^ 22 + 1 / 2 ^ 148"
    and l2: "std_cos L (Finite f) = Finite c1"
      and e2: "\<bar>c1 - cos f\<bar> \<le> \<bar>cos f\<bar> / 2 ^ 22 + 1 / 2 ^ 148"
    and l3: "std_sinh L (Finite e) = Finite s2"
      and e3: "\<bar>s2 - sinh e\<bar> \<le> \<bar>sinh e\<bar> / 2 ^ 22 + 1 / 2 ^ 148"
    and l4: "std_cosh L (Finite e) = Finite c2"
      and e4: "\<bar>c2 - cosh e\<bar> \<le> \<bar>cosh e\<bar> / 2 ^ 22 + 1 / 2 ^ 148"
    unfolding two_ulp_accurate_def within_2ulp_def by metis
  note err = pythagoras_err [OF e1 e2 e3 e4, of a]
  have D2: "2 * (\<bar>a\<bar> * cosh e) \<le> 2 ^ 127" using D by simp
  have m: "\<bar>a * s1\<bar> \<le> 2 ^ 127" "\<bar>a * c1\<bar> \<le> 2 ^ 127"
    "\<bar>a * s2\<bar> \<le> 2 ^ 127" "\<bar>a * c2\<bar> \<le> 2 ^ 127"
    using order_trans [OF err(2) D2] order_trans [OF err(3) D2]
      order_trans [OF err(4) D2] order_trans [OF err(5) D2] by blast+
  have "px L r = Finite (quantize (a * s1))" "py L r = Finite (quantize (a * c1))"
    "pz L r = Finite (quantize (a * s2))" "p L r = Finite (quantize (a * c2))"
    unfolding getter_defs a e f
    using product_rounded_once [OF refl l1 m(1)] product_rounded_once [OF refl l2 m(2)]
      product_rounded_once [OF refl l3 m(3)] product_rounded_once [OF refl l4 m(4)]
    by blast+
  with err(1) show "\<exists>X Y Z W. px L r = Finite X \<and> py L r = Finite Y \<and> pz L r = Finite Z \<and>
      p L r = Finite W \<and>
      \<bar>X\<^sup>2 + Y\<^sup>2 + Z\<^sup>2 - W\<^sup>2\<bar>
        \<le> (\<bar>a\<bar> * cosh e)\<^sup>2 / 2 ^ 18 + \<bar>a\<bar> * cosh e / 2 ^ 146 + 1 / 2 ^ 298"
    by blast
qed

theorem pythagoras_tolerance_witness:
  "two_ulp_accurate nearest_cmath \<and> is_binary32 1 \<and> cosh (1::real) \<le> 2 ^ 126 \<and> \<bar>3\<bar> * cosh (1::real) \<le> 2 ^ 126 \<and>
   (\<exists>X Y Z W.
      px nearest_cmath
        \<lparr>fdCollisionId = 0, pt = Finite 3, eta = Finite 1, phi = Finite 1,
      partType = 0, cut = 0, pidcut = 0, tempFitVar = Finite 0, childrenIds = [],
      mLambda = Finite 0, mAntiLambda = Finite 0\<rparr> = Finite X \<and>
      py nearest_cmath
        \<lparr>fdCollisionId = 0, pt = Finite 3, eta = Finite 1, phi = Finite 1,
      partType = 0, cut = 0, pidcut = 0, tempFitVar = Finite 0, childrenIds = [],
      mLambda = Finite 0, mAntiLambda = Finite 0\<rparr> = Finite Y \<and>
      pz nearest_cmath
        \<lparr>fdCollisionId = 0, pt = Finite 3, eta = Finite 1, phi = Finite 1,
      partType = 0, cut = 0, pidcut = 0, tempFitVar = Finite 0, childrenIds = [],
      mLambda = Finite 0, mAntiLambda = Finite 0\<rparr> = Finite Z \<and>
      p nearest_cmath
        \<lparr>fdCollisionId = 0, pt = Finite 3, eta = Finite 1, phi = Finite 1,
      partType = 0, cut = 0, pidcut = 0, tempFitVar = Finite 0, childrenIds = [],
      mLambda = Finite 0, mAntiLambda = Finite 0\<rparr> = Finite W \<and>
      \<bar>X\<^sup>2 + Y\<^sup>2 + Z\<^sup>2 - W\<^sup>2\<bar>
        \<le> (\<bar>3\<bar> * cosh 1)\<^sup>2 / 2 ^ 18 + \<bar>3\<bar> * cosh 1 / 2 ^ 146 + 1 / 2 ^ 298)"
proof -
  have c: "cosh (1::real) \<le> 2 ^ 126" "\<bar>3\<bar> * cosh (1::real) \<le> 2 ^ 126"
    using cosh_1_le by simp_all
  from pythagoras_tolerance [of nearest_cmath
     "\<lparr>fdCollisionId = 0, pt = Finite 3, eta = Finite 1, phi = Finite 1,
      partType = 0, cut = 0, pidcut = 0, tempFitVar = Finite 0, childrenIds = [],
      mLambda = Finite 0, mAntiLambda = Finite 0\<rparr>"
     3 1 1] nearest_accurate c is_binary32_1
  show ?thesis by simp
qed

text \<open>
  C4, as stated, fails: with crossed rows equal to findable clusters the ratio is not
  always 1.0. When both counts are 0 the division is \<open>0.0f / 0.0f\<close>, which is NaN.
\<close>

theorem crossed_rows_zero_by_zero_counterexample:
  "tpcNClsCrossedRows \<lparr>tpcNClsFindable = 0, tpcNClsCrossedRows = 0\<rparr> =
     tpcNClsFindable \<lparr>tpcNClsFindable = 0, tpcNClsCrossedRows = 0\<rparr> \<and>
   tpcCrossedRowsOverFindableCls \<lparr>tpcNClsFindable = 0, tpcNClsCrossedRows = 0\<rparr> = NaN \<and>
   tpcCrossedRowsOverFindableCls \<lparr>tpcNClsFindable = 0, tpcNClsCrossedRows = 0\<rparr> \<noteq> Finite 1"
  by (simp add: tpcCrossedRowsOverFindableCls_def ratio_zero_den)

text \<open>
  C4, amended. The ratio is the single-precision quotient of the two counts converted to
  \<open>float\<close>: the rounded quotient when findable clusters is not 0, exactly 1.0 when the
  two counts are equal and not 0, \<open>+inf\<close> when findable clusters is 0 and crossed rows is
  not, and NaN when both are 0.
\<close>

theorem crossed_rows_ratio:
  "tpcCrossedRowsOverFindableCls r =
     fdiv (float_of_uint8 (tpcNClsCrossedRows r)) (float_of_uint8 (tpcNClsFindable r)) \<and>
   (tpcNClsFindable r \<noteq> 0 \<longrightarrow>
      tpcCrossedRowsOverFindableCls r =
        round32 (real (unat (tpcNClsCrossedRows r)) / real (unat (tpcNClsFindable r)))) \<and>
   (tpcNClsCrossedRows r = tpcNClsFindable r \<and> tpcNClsFindable r \<noteq> 0 \<longrightarrow>
      tpcCrossedRowsOverFindableCls r = Finite 1) \<and>
   (tpcNClsFindable r = 0 \<and> tpcNClsCrossedRows r \<noteq> 0 \<longrightarrow>
      tpcCrossedRowsOverFindableCls r = PInf) \<and>
   (tpcNClsFindable r = 0 \<and> tpcNClsCrossedRows r = 0 \<longrightarrow>
      tpcCrossedRowsOverFindableCls r = NaN)"
proof -
  have "tpcNClsFindable r \<noteq> 0 \<longrightarrow>
      tpcCrossedRowsOverFindableCls r =
        round32 (real (unat (tpcNClsCrossedRows r)) / real (unat (tpcNClsFindable r)))"
  proof
    assume "tpcNClsFindable r \<noteq> 0"
    then have "real (unat (tpcNClsFindable r)) \<noteq> 0" by (simp add: unsigned_eq_0_iff)
    then show "tpcCrossedRowsOverFindableCls r =
        round32 (real (unat (tpcNClsCrossedRows r)) / real (unat (tpcNClsFindable r)))"
      by (simp add: tpcCrossedRowsOverFindableCls_def TPCCrossedRowsOverFindableCls_def
          float_of_uint8_def del: of_nat_unat)
  qed
  moreover have "tpcCrossedRowsOverFindableCls r =
     fdiv (float_of_uint8 (tpcNClsCrossedRows r)) (float_of_uint8 (tpcNClsFindable r))"
    by (simp add: tpcCrossedRowsOverFindableCls_def TPCCrossedRowsOverFindableCls_def)
  moreover have "tpcNClsCrossedRows r = tpcNClsFindable r \<and> tpcNClsFindable r \<noteq> 0 \<longrightarrow>
      tpcCrossedRowsOverFindableCls r = Finite 1"
    by (simp add: tpcCrossedRowsOverFindableCls_def ratio_one)
  moreover have "tpcNClsFindable r = 0 \<and> tpcNClsCrossedRows r \<noteq> 0 \<longrightarrow>
      tpcCrossedRowsOverFindableCls r = PInf"
    by (simp add: tpcCrossedRowsOverFindableCls_def ratio_zero_den)
  moreover have "tpcNClsFindable r = 0 \<and> tpcNClsCrossedRows r = 0 \<longrightarrow>
      tpcCrossedRowsOverFindableCls r = NaN"
    by (simp add: tpcCrossedRowsOverFindableCls_def ratio_zero_den)
  ultimately show ?thesis by blast
qed

theorem crossed_rows_ratio_witness:
  "tpcCrossedRowsOverFindableCls \<lparr>tpcNClsFindable = 120, tpcNClsCrossedRows = 120\<rparr> = Finite 1 \<and>
   tpcCrossedRowsOverFindableCls \<lparr>tpcNClsFindable = 0, tpcNClsCrossedRows = 5\<rparr> = PInf \<and>
   tpcCrossedRowsOverFindableCls \<lparr>tpcNClsFindable = 0, tpcNClsCrossedRows = 0\<rparr> = NaN \<and>
   tpcCrossedRowsOverFindableCls \<lparr>tpcNClsFindable = 3, tpcNClsCrossedRows = 0\<rparr> = Finite 0"
  using
    crossed_rows_ratio [THEN conjunct2, of "\<lparr>tpcNClsFindable = 120, tpcNClsCrossedRows = 120\<rparr>"]
    crossed_rows_ratio [THEN conjunct2, of "\<lparr>tpcNClsFindable = 0, tpcNClsCrossedRows = 5\<rparr>"]
    crossed_rows_ratio [THEN conjunct2, of "\<lparr>tpcNClsFindable = 0, tpcNClsCrossedRows = 0\<rparr>"]
    crossed_rows_ratio [THEN conjunct2, of "\<lparr>tpcNClsFindable = 3, tpcNClsCrossedRows = 0\<rparr>"]
  by (simp add: round32_0 round32_1)

text \<open>
  C5, as stated, fails: the two tag columns are plain \<open>uint8_t\<close> columns, and a row
  holding 200 in either of them is a row of the table although 200 is neither a
  \<open>ParticleType\<close> nor a \<open>ParticleOriginMCTruth\<close>.
\<close>

theorem tag_out_of_range_counterexample:
  "\<not> is_ParticleType
       (partType \<lparr>fdCollisionId = 0, pt = Finite 1, eta = Finite 0, phi = Finite 0,
                  partType = 200, cut = 0, pidcut = 0, tempFitVar = Finite 0,
                  childrenIds = [], mLambda = Finite 0, mAntiLambda = Finite 0\<rparr>) \<and>
   \<not> is_ParticleOriginMCTruth
       (partOriginMCTruth \<lparr>partOriginMCTruth = 200, pdgMCTruth = 211, mc_pt = Finite 1,
                           mc_eta = Finite 0, mc_phi = Finite 0\<rparr>)"
  by (simp add: is_ParticleType_def is_ParticleOriginMCTruth_def)

text \<open>
  C5, amended. The particle-type and the origin column each hold an unsigned 8-bit value,
  stored as given: each of the six particle types (0..5) and of the nine origins (0..8)
  fits and is read back unchanged, and so does every other value up to 255; a stored tag
  is a declared kind exactly when it is below 6, respectively below 9.
\<close>

theorem tag_columns_hold_any_byte:
  "partType (r\<lparr>partType := w\<rparr>) = w \<and>
   partOriginMCTruth (m\<lparr>partOriginMCTruth := v\<rparr>) = v \<and>
   unat w < 256 \<and> unat v < 256 \<and>
   is_ParticleType w = (unat w < 6) \<and>
   is_ParticleOriginMCTruth v = (unat v < 9) \<and>
   unat (of_nat (ParticleType_value k) :: 8 word) = ParticleType_value k \<and>
   unat (of_nat (ParticleOriginMCTruth_value k') :: 8 word) = ParticleOriginMCTruth_value k'"
proof -
  have "unat w < 2 ^ LENGTH(8)" "unat v < 2 ^ LENGTH(8)" by (rule unsigned_less)+
  moreover have "unat (of_nat (ParticleType_value k) :: 8 word) = ParticleType_value k"
    by (cases k) simp_all
  moreover have
    "unat (of_nat (ParticleOriginMCTruth_value k') :: 8 word) = ParticleOriginMCTruth_value k'"
    by (cases k') simp_all
  ultimately show ?thesis by (simp add: is_ParticleType_def is_ParticleOriginMCTruth_def)
qed

text \<open>
  C6, as stated, fails: nothing checks the child list of a row. The table whose only row
  (index 0) lists 0 among its children is a table of \<open>FDParticles\<close> rows.
\<close>

theorem self_child_counterexample:
  "self_child
     [\<lparr>fdCollisionId = 0, pt = Finite 1, eta = Finite 0, phi = Finite 0, partType = 1,
       cut = 0, pidcut = 0, tempFitVar = Finite 0, childrenIds = [0], mLambda = Finite 0,
       mAntiLambda = Finite 0\<rparr>] 0"
  by (simp add: self_child_def)

text \<open>
  C6, amended. The child list of a row is a list of 32-bit row indices stored as given and
  not checked: the row appended to a table at index \<open>length tbl\<close> with child list \<open>ch\<close>
  holds exactly \<open>ch\<close>, and it names itself among its children exactly when \<open>ch\<close> contains
  that index.
\<close>

theorem children_stored_unchecked:
  "childrenIds ((tbl @ [r\<lparr>childrenIds := ch\<rparr>]) ! length tbl) = ch \<and>
   self_child (tbl @ [r\<lparr>childrenIds := ch\<rparr>]) (length tbl) =
     (int (length tbl) \<in> sint ` set ch)"
  by (simp add: self_child_def)

text \<open>
  C7, as stated, fails: the tags are not four to eight characters long. The origin
  \<open>AOD\<close> has three characters and the description of the collision table has eleven.
\<close>

theorem tag_length_counterexample:
  "FDCollisions \<in> set declared_tables \<and>
   length (origin FDCollisions) = 3 \<and>
   length (description FDCollisions) = 11 \<and>
   \<not> (4 \<le> length (origin FDCollisions) \<and> length (description FDCollisions) \<le> 8)"
  by (simp add: declared_tables_def FDCollisions_def)

text \<open>
  C7, amended. Each of the fifteen declared tables has the origin \<open>AOD\<close> (three
  characters) and a description of four to fifteen characters, and no two tables have
  the same description.
\<close>

theorem table_tags:
  "(\<forall>t \<in> set declared_tables.
      origin t = ''AOD'' \<and> 4 \<le> length (description t) \<and> length (description t) \<le> 15) \<and>
   distinct (map description declared_tables) \<and>
   length declared_tables = 15"
  by (simp add: declared_tables_def table_defs)

theorem table_tags_witness:
  "Hashes \<in> set declared_tables \<and> origin Hashes = ''AOD'' \<and>
   4 \<le> length (description Hashes) \<and> length (description Hashes) \<le> 15 \<and>
   FDParticlesIndex \<in> set declared_tables \<and> length (description FDParticlesIndex) \<le> 15"
proof -
  have h: "Hashes \<in> set declared_tables" "FDParticlesIndex \<in> set declared_tables"
    by (simp_all add: declared_tables_def)
  from table_tags h show ?thesis by blast
qed

text \<open>
  C8, as stated, fails in its last part: for \<open>pt = 1\<close>, \<open>eta = 0\<close>, \<open>phi = 0\<close> the polar
  angle is not \<open>\<pi>/2\<close>. With the correctly rounded library the getter returns
  \<open>13176795 / 2^23\<close>, the binary32 number nearest to \<open>\<pi>/2\<close>, which is greater than
  \<open>\<pi>/2\<close>.
\<close>

theorem theta_unit_input_counterexample:
  "theta nearest_cmath
     \<lparr>fdCollisionId = 0, pt = Finite 1, eta = Finite 0, phi = Finite 0,
      partType = 0, cut = 0, pidcut = 0, tempFitVar = Finite 0, childrenIds = [],
      mLambda = Finite 0, mAntiLambda = Finite 0\<rparr> = Finite (13176795 / 8388608) \<and>
   pi / 2 < 13176795 / 8388608 \<and>
   theta nearest_cmath
     \<lparr>fdCollisionId = 0, pt = Finite 1, eta = Finite 0, phi = Finite 0,
      partType = 0, cut = 0, pidcut = 0, tempFitVar = Finite 0, childrenIds = [],
      mLambda = Finite 0, mAntiLambda = Finite 0\<rparr> \<noteq> Finite (pi / 2)"
proof -
  have "theta nearest_cmath
     \<lparr>fdCollisionId = 0, pt = Finite 1, eta = Finite 0, phi = Finite 0,
      partType = 0, cut = 0, pidcut = 0, tempFitVar = Finite 0, childrenIds = [],
      mLambda = Finite 0, mAntiLambda = Finite 0\<rparr> = Finite (13176795 / 8388608)"
    using Theta_at_zero [of nearest_cmath] nearest_exact_at_zero nearest_atan_one
    by (simp add: theta_def exact_at_zero_def)
  moreover have "pi / 2 < 13176795 / 8388608" using pi_upper by simp
  ultimately show ?thesis by simp
qed

text \<open>
  C8, amended. For \<open>pt = 1\<close>, \<open>eta = 0\<close>, \<open>phi = 0\<close>, with a library that has the
  standard values at zero (\<open>sin 0 = 0\<close>, \<open>cos 0 = 1\<close>, \<open>sinh 0 = 0\<close>, \<open>cosh 0 = 1\<close>,
  \<open>exp 0 = 1\<close>) and for which \<open>atan(1)\<close> is the binary32 number nearest to \<open>\<pi>/4\<close>, the
  getters return \<open>px = 0\<close>, \<open>py = 1\<close>, \<open>pz = 0\<close>, \<open>p = 1\<close>, and the polar angle is
  \<open>13176795 / 2^23\<close>, the binary32 number nearest to \<open>\<pi>/2\<close>, which is within \<open>2^-24\<close>
  of \<open>\<pi>/2\<close>.
\<close>

theorem getters_at_unit_input:
  "exact_at_zero L \<and> std_atan L (Finite 1) = Finite (13176795 / 16777216) \<longrightarrow>
   px L (r\<lparr>pt := Finite 1, eta := Finite 0, phi := Finite 0\<rparr>) = Finite 0 \<and>
   py L (r\<lparr>pt := Finite 1, eta := Finite 0, phi := Finite 0\<rparr>) = Finite 1 \<and>
   pz L (r\<lparr>pt := Finite 1, eta := Finite 0, phi := Finite 0\<rparr>) = Finite 0 \<and>
   p L (r\<lparr>pt := Finite 1, eta := Finite 0, phi := Finite 0\<rparr>) = Finite 1 \<and>
   theta L (r\<lparr>pt := Finite 1, eta := Finite 0, phi := Finite 0\<rparr>) =
     Finite (13176795 / 8388608) \<and>
   round32 (pi / 2) = Finite (13176795 / 8388608) \<and>
   \<bar>13176795 / 8388608 - pi / 2\<bar> \<le> 1 / 2 ^ 24"
proof (intro impI, elim conjE)
  assume z: "exact_at_zero L" and o: "std_atan L (Finite 1) = Finite (13176795 / 16777216)"
  from z have z': "std_sin L (Finite 0) = Finite 0" "std_cos L (Finite 0) = Finite 1"
    "std_sinh L (Finite 0) = Finite 0" "std_cosh L (Finite 0) = Finite 1"
    "std_exp L (Finite 0) = Finite 1"
    by (simp_all add: exact_at_zero_def)
  have t: "Theta L (Finite 0) = Finite (13176795 / 8388608)"
    using z'(5) o by (rule Theta_at_zero)
  have err: "\<bar>13176795 / 8388608 - pi / 2\<bar> \<le> 1 / 2 ^ 24"
    using quantize_pi_half_err by (simp only: quantize_pi_half_value)
  have r: "round32 (pi / 2) = Finite (13176795 / 8388608)"
    by (simp add: round32_pi_half quantize_pi_half_value)
  show "px L (r\<lparr>pt := Finite 1, eta := Finite 0, phi := Finite 0\<rparr>) = Finite 0 \<and>
   py L (r\<lparr>pt := Finite 1, eta := Finite 0, phi := Finite 0\<rparr>) = Finite 1 \<and>
   pz L (r\<lparr>pt := Finite 1, eta := Finite 0, phi := Finite 0\<rparr>) = Finite 0 \<and>
   p L (r\<lparr>pt := Finite 1, eta := Finite 0, phi := Finite 0\<rparr>) = Finite 1 \<and>
   theta L (r\<lparr>pt := Finite 1, eta := Finite 0, phi := Finite 0\<rparr>) =
     Finite (13176795 / 8388608) \<and>
   round32 (pi / 2) = Finite (13176795 / 8388608) \<and>
   \<bar>13176795 / 8388608 - pi / 2\<bar> \<le> 1 / 2 ^ 24"
    using err r
    by (simp add: px_def py_def pz_def p_def theta_def Px_def Py_def Pz_def P_def z' t
        round32_0 round32_1)
qed

theorem getters_at_unit_input_witness:
  "exact_at_zero nearest_cmath \<and>
   std_atan nearest_cmath (Finite 1) = Finite (13176795 / 16777216) \<and>
   px nearest_cmath
     \<lparr>fdCollisionId = 0, pt = Finite 1, eta = Finite 0, phi = Finite 0,
      partType = 0, cut = 0, pidcut = 0, tempFitVar = Finite 0, childrenIds = [],
      mLambda = Finite 0, mAntiLambda = Finite 0\<rparr> = Finite 0 \<and>
   py nearest_cmath
     \<lparr>fdCollisionId = 0, pt = Finite 1, eta = Finite 0, phi = Finite 0,
      partType = 0, cut = 0, pidcut = 0, tempFitVar = Finite 0, childrenIds = [],
      mLambda = Finite 0, mAntiLambda = Finite 0\<rparr> = Finite 1 \<and>
   pz nearest_cmath
     \<lparr>fdCollisionId = 0, pt = Finite 1, eta = Finite 0, phi = Finite 0,
      partType = 0, cut = 0, pidcut = 0, tempFitVar = Finite 0, childrenIds = [],
      mLambda = Finite 0, mAntiLambda = Finite 0\<rparr> = Finite 0 \<and>
   p nearest_cmath
     \<lparr>fdCollisionId = 0, pt = Finite 1, eta = Finite 0, phi = Finite 0,
      partType = 0, cut = 0, pidcut = 0, tempFitVar = Finite 0, childrenIds = [],
      mLambda = Finite 0, mAntiLambda = Finite 0\<rparr> = Finite 1"
  using getters_at_unit_input [of nearest_cmath
     "\<lparr>fdCollisionId = 0, pt = Finite 1, eta = Finite 0, phi = Finite 0,
      partType = 0, cut = 0, pidcut = 0, tempFitVar = Finite 0, childrenIds = [],
      mLambda = Finite 0, mAntiLambda = Finite 0\<rparr>"]
    nearest_exact_at_zero nearest_atan_one
  by simp

text \<open>
  C9. The name table of the origins has nine slots and seven initialisers. The first five
  names stand at the index of their origin; \<open>_SecondaryDaughterLambda\<close> stands at the
  index of \<open>kWrongCollision\<close>, \<open>_SecondaryDaughterSigmaPlus\<close> at the index of
  \<open>kSecondaryDaughterLambda\<close>, and the slots of \<open>kSecondaryDaughterSigmaplus\<close> and
  \<open>kElse\<close> hold the empty string.
\<close>

theorem origin_names_misaligned:
  "length ParticleOriginMCTruthName = ParticleOriginMCTruth_value kNOriginMCTruthTypes \<and>
   ParticleOriginMCTruth_value kNOriginMCTruthTypes = 9 \<and>
   length ParticleOriginMCTruthName_initialisers = 7 \<and>
   subscript ParticleOriginMCTruthName (ParticleOriginMCTruth_value kPrimary) =
     Some ''_Primary'' \<and>
   subscript ParticleOriginMCTruthName (ParticleOriginMCTruth_value kSecondary) =
     Some ''_Secondary'' \<and>
   subscript ParticleOriginMCTruthName (ParticleOriginMCTruth_value kMaterial) =
     Some ''_Material'' \<and>
   subscript ParticleOriginMCTruthName (ParticleOriginMCTruth_value kNotPrimary) =
     Some ''_NotPrimary'' \<and>
   subscript ParticleOriginMCTruthName (ParticleOriginMCTruth_value kFake) =
     Some ''_Fake'' \<and>
   subscript ParticleOriginMCTruthName (ParticleOriginMCTruth_value kWrongCollision) =
     Some ''_SecondaryDaughterLambda'' \<and>
   subscript ParticleOriginMCTruthName (ParticleOriginMCTruth_value kSecondaryDaughterLambda) =
     Some ''_SecondaryDaughterSigmaPlus'' \<and>
   subscript ParticleOriginMCTruthName (ParticleOriginMCTruth_value kSecondaryDaughterSigmaplus) =
     Some '''' \<and>
   subscript ParticleOriginMCTruthName (ParticleOriginMCTruth_value kElse) = Some ''''"
  by (simp add: ParticleOriginMCTruthName_def ParticleOriginMCTruthName_initialisers_def
      array_init_def subscript_def numeral_eq_Suc)

text \<open>
  C10. The table of template-fit names has \<open>kNParticleTypes - 1 = 5\<close> elements while six
  particle types are declared, so the index of \<open>kCharmHadron\<close> (5) is outside it; the
  table of particle-type names does have an element there.
\<close>

theorem temp_fit_name_missing_for_charm:
  "length TempFitVarName = ParticleType_value kNParticleTypes - 1 \<and>
   length TempFitVarName = 5 \<and>
   ParticleType_value kNParticleTypes = 6 \<and>
   ParticleType_value kCharmHadron = 5 \<and>
   subscript TempFitVarName (ParticleType_value kCharmHadron) = None \<and>
   subscript TempFitVarName (ParticleType_value kCascadeBachelor) = Some ''/hDCAxy'' \<and>
   subscript ParticleTypeName (ParticleType_value kCharmHadron) = Some ''CharmHadron''"
  by (simp add: TempFitVarName_def ParticleTypeName_def array_init_def subscript_def
      numeral_eq_Suc)

end
